theory Spec2Isabelle
  imports Main "HOL-Library.Sublist"
begin

section \<open>Python values of the mindmap generator\<close>

text \<open>
  The generator of \<^verbatim>\<open>mindmap_generator.py\<close> works on what \<^verbatim>\<open>json.loads\<close> returns and on
  dictionaries it builds itself. A value is \<^verbatim>\<open>None\<close>, a \<^verbatim>\<open>bool\<close>, an \<^verbatim>\<open>int\<close>, a \<^verbatim>\<open>str\<close>, a
  \<^verbatim>\<open>list\<close> or a \<^verbatim>\<open>dict\<close> with string keys; a dictionary is an association list in
  insertion order, read at the first entry of a key. Numbers with a fraction or an
  exponent (Python floats) are outside the model. Strings are lists of characters;
  case mapping and white space are those of ASCII text.
\<close>

datatype json =
    JNull
  | JBool bool
  | JInt int
  | JStr string
  | JList "json list"
  | JObj "(string \<times> json) list"

datatype py_error = KeyError | TypeError | AttributeError | UnboundLocalError

type_synonym 'a result = "py_error + 'a"

text \<open>Sequencing of a step that may raise.\<close>

definition bind_r :: "'a result \<Rightarrow> ('a \<Rightarrow> 'b result) \<Rightarrow> 'b result" where
  "bind_r r f = (case r of Inl e \<Rightarrow> Inl e | Inr v \<Rightarrow> f v)"

text \<open>\<^verbatim>\<open>d.get(k, default)\<close> on a dictionary.\<close>

definition dict_get :: "(string \<times> json) list \<Rightarrow> string \<Rightarrow> json \<Rightarrow> json" where
  "dict_get d k dflt = (case map_of d k of None \<Rightarrow> dflt | Some v \<Rightarrow> v)"

text \<open>\<^verbatim>\<open>v.get(k, default)\<close> on any value: only a dictionary has the method.\<close>

fun py_get :: "json \<Rightarrow> string \<Rightarrow> json \<Rightarrow> json result" where
  "py_get (JObj d) k dflt = Inr (dict_get d k dflt)"
| "py_get _ k dflt = Inl AttributeError"

text \<open>
  \<^verbatim>\<open>v[k]\<close> with a string key: a dictionary raises KeyError on a missing key; a
  string or a list takes integer indices only, the other values no index at all.
\<close>

fun py_getitem :: "json \<Rightarrow> string \<Rightarrow> json result" where
  "py_getitem (JObj d) k = (case map_of d k of None \<Rightarrow> Inl KeyError | Some v \<Rightarrow> Inr v)"
| "py_getitem _ k = Inl TypeError"

text \<open>
  \<^verbatim>\<open>k in v\<close> for a string \<open>k\<close>: key membership on a dictionary, element membership
  on a list, substring test on a string, TypeError on the other values.
\<close>

fun py_in :: "string \<Rightarrow> json \<Rightarrow> bool result" where
  "py_in k (JObj d) = Inr (map_of d k \<noteq> None)"
| "py_in k (JList xs) = Inr (JStr k \<in> set xs)"
| "py_in k (JStr s) = Inr (sublist k s)"
| "py_in k _ = Inl TypeError"

text \<open>\<^verbatim>\<open>all(key in v for key in keys)\<close>: the generator stops at the first missing key.\<close>

fun all_in :: "string list \<Rightarrow> json \<Rightarrow> bool result" where
  "all_in [] v = Inr True"
| "all_in (k # ks) v =
     (case py_in k v of
        Inl e \<Rightarrow> Inl e
      | Inr b \<Rightarrow> if b then all_in ks v else Inr False)"

section \<open>The validators of stages 1 and 2\<close>

definition required_keys :: "string list" where
  "required_keys =
     [''main_topic'', ''topic_description'', ''mindmap_type'', ''concepts'', ''relationships'']"

definition required_concept_keys :: "string list" where
  "required_concept_keys =
     [''id'', ''title'', ''description'', ''level'', ''what'', ''why'', ''how'',
      ''examples'', ''metrics'']"

text \<open>
  \<^verbatim>\<open>_validate_detailed_parsed_data\<close>. The second test of the source
  (\<^verbatim>\<open>if data["concepts"]:\<close>) is always true where it is reached, the list being
  non-empty there.
\<close>

definition validate_detailed_parsed_data :: "json \<Rightarrow> bool result" where
  "validate_detailed_parsed_data data =
     bind_r (all_in required_keys data) (\<lambda>present.
       if \<not> present then Inr False
       else bind_r (py_getitem data ''concepts'') (\<lambda>cs.
         case cs of
           JList [] \<Rightarrow> Inr False
         | JList (concept # _) \<Rightarrow>
             bind_r (all_in required_concept_keys concept) (\<lambda>ok.
               if \<not> ok then Inr False else Inr True)
         | _ \<Rightarrow> Inr False))"

definition required_layout_keys :: "string list" where
  "required_layout_keys = [''title'', ''description'', ''layout_type'', ''nodes'', ''edges'']"

definition required_node_keys :: "string list" where
  "required_node_keys =
     [''id'', ''title'', ''description'', ''x'', ''y'', ''details'', ''processes'',
      ''considerations'']"

text \<open>\<^verbatim>\<open>_validate_detailed_structured_data\<close>, of the same shape.\<close>

definition validate_detailed_structured_data :: "json \<Rightarrow> bool result" where
  "validate_detailed_structured_data data =
     bind_r (all_in required_layout_keys data) (\<lambda>present.
       if \<not> present then Inr False
       else bind_r (py_getitem data ''nodes'') (\<lambda>ns.
         case ns of
           JList [] \<Rightarrow> Inr False
         | JList (node # _) \<Rightarrow>
             bind_r (all_in required_node_keys node) (\<lambda>ok.
               if \<not> ok then Inr False else Inr True)
         | _ \<Rightarrow> Inr False))"

section \<open>Strings\<close>

definition is_space :: "char \<Rightarrow> bool" where
  \<comment> \<open>the ASCII characters \<^verbatim>\<open>str.isspace\<close> and the pattern \<^verbatim>\<open>\s\<close> accept\<close>
  "is_space c = (let n = (of_char c :: nat) in (9 \<le> n \<and> n \<le> 13) \<or> (28 \<le> n \<and> n \<le> 32))"

definition is_upper :: "char \<Rightarrow> bool" where
  "is_upper c = (let n = (of_char c :: nat) in 65 \<le> n \<and> n \<le> 90)"

definition is_lower :: "char \<Rightarrow> bool" where
  "is_lower c = (let n = (of_char c :: nat) in 97 \<le> n \<and> n \<le> 122)"

definition lower_char :: "char \<Rightarrow> char" where
  "lower_char c = (if is_upper c then char_of ((of_char c :: nat) + 32) else c)"

definition upper_char :: "char \<Rightarrow> char" where
  "upper_char c = (if is_lower c then char_of ((of_char c :: nat) - 32) else c)"

text \<open>\<^verbatim>\<open>s.lower()\<close> and \<^verbatim>\<open>s.strip()\<close>.\<close>

definition py_lower :: "string \<Rightarrow> string" where
  "py_lower s = map lower_char s"

definition py_strip :: "string \<Rightarrow> string" where
  "py_strip s = rev (dropWhile is_space (rev (dropWhile is_space s)))"

text \<open>
  \<^verbatim>\<open>s.title()\<close>: a letter that follows a letter is lowered, any other letter is
  raised; the flag says whether the character before was a letter.
\<close>

fun title_from :: "bool \<Rightarrow> string \<Rightarrow> string" where
  "title_from prev [] = []"
| "title_from prev (c # cs) =
     (if is_upper c \<or> is_lower c
      then (if prev then lower_char c else upper_char c) # title_from True cs
      else c # title_from False cs)"

definition py_title :: "string \<Rightarrow> string" where
  "py_title s = title_from False s"

text \<open>\<^verbatim>\<open>s.split()\<close>: the maximal runs of characters that are not white space.\<close>

fun split_from :: "string \<Rightarrow> string \<Rightarrow> string list" where
  "split_from w [] = (if w = [] then [] else [w])"
| "split_from w (c # cs) =
     (if is_space c then (if w = [] then split_from [] cs else w # split_from [] cs)
      else split_from (w @ [c]) cs)"

definition py_split :: "string \<Rightarrow> string list" where
  "py_split s = split_from [] s"

text \<open>\<^verbatim>\<open>' '.join(ws)\<close>.\<close>

fun join_space :: "string list \<Rightarrow> string" where
  "join_space [] = []"
| "join_space [w] = w"
| "join_space (w # v # ws) = w @ '' '' @ join_space (v # ws)"

text \<open>\<^verbatim>\<open>s.replace(a, b)\<close> for single characters \<open>a\<close> and \<open>b\<close>.\<close>

definition replace_char :: "char \<Rightarrow> char \<Rightarrow> string \<Rightarrow> string" where
  "replace_char a b s = map (\<lambda>c. if c = a then b else c) s"

text \<open>The decimal numeral an f-string writes for a natural number.\<close>

definition digit_char :: "nat \<Rightarrow> char" where
  "digit_char d = char_of (48 + d)"

fun str_nat :: "nat \<Rightarrow> string" where
  "str_nat n = (if n < 10 then [digit_char n] else str_nat (n div 10) @ [digit_char (n mod 10)])"

declare str_nat.simps [simp del]

text \<open>
  \<^verbatim>\<open>s.find(sub)\<close> and \<^verbatim>\<open>s.rfind(sub)\<close>: the lowest and the highest index where \<open>sub\<close>
  starts, \<open>None\<close> standing for Python's \<open>-1\<close>.
\<close>

primrec find_idx :: "string \<Rightarrow> string \<Rightarrow> nat option" where
  "find_idx sub [] = (if sub = [] then Some 0 else None)"
| "find_idx sub (c # cs) =
     (if prefix sub (c # cs) then Some 0 else map_option Suc (find_idx sub cs))"

primrec rfind_idx :: "string \<Rightarrow> string \<Rightarrow> nat option" where
  "rfind_idx sub [] = (if sub = [] then Some 0 else None)"
| "rfind_idx sub (c # cs) =
     (case rfind_idx sub cs of
        Some i \<Rightarrow> Some (Suc i)
      | None \<Rightarrow> if prefix sub (c # cs) then Some 0 else None)"

definition py_find :: "string \<Rightarrow> string \<Rightarrow> int" where
  "py_find s sub = (case find_idx sub s of None \<Rightarrow> - 1 | Some i \<Rightarrow> int i)"

definition py_rfind :: "string \<Rightarrow> string \<Rightarrow> int" where
  "py_rfind s sub = (case rfind_idx sub s of None \<Rightarrow> - 1 | Some i \<Rightarrow> int i)"

text \<open>\<^verbatim>\<open>s.find(sub, start)\<close> for \<open>start \<ge> 0\<close>.\<close>

definition py_find_from :: "string \<Rightarrow> string \<Rightarrow> int \<Rightarrow> int" where
  "py_find_from s sub start =
     (case find_idx sub (drop (nat start) s) of
        None \<Rightarrow> - 1
      | Some i \<Rightarrow> if int (length s) < start then - 1 else start + int i)"

text \<open>
  The slice \<^verbatim>\<open>s[i:j]\<close>: a negative bound counts from the end, and bounds beyond the
  string are clipped; the slice is empty when the bounds cross.
\<close>

definition slice_bound :: "nat \<Rightarrow> int \<Rightarrow> nat" where
  "slice_bound n i = (if i < 0 then nat (i + int n) else nat i)"

definition py_slice :: "'a list \<Rightarrow> int \<Rightarrow> int \<Rightarrow> 'a list" where
  "py_slice s i j = drop (slice_bound (length s) i) (take (slice_bound (length s) j) s)"

section \<open>The sanitizer\<close>

text \<open>
  \<^verbatim>\<open>re.sub(r',(\s*[}\]])', r'\1', content)\<close>: scanning from the left, a comma that
  white space and then a closing brace or bracket follow is dropped, the white space
  and the closing character are kept, and the scan goes on behind the closing
  character.
\<close>

definition is_closer :: "char \<Rightarrow> bool" where
  "is_closer c = (c = CHR ''}'' \<or> c = CHR '']'')"

definition closes :: "string \<Rightarrow> bool" where
  \<comment> \<open>the text matches \<^verbatim>\<open>\s*[}\]]\<close> at its start\<close>
  "closes s = (case dropWhile is_space s of [] \<Rightarrow> False | c # _ \<Rightarrow> is_closer c)"

function re_sub_commas :: "string \<Rightarrow> string" where
  "re_sub_commas [] = []"
| "re_sub_commas (c # cs) =
     (if c = CHR '','' \<and> closes cs
      then takeWhile is_space cs @ [hd (dropWhile is_space cs)]
             @ re_sub_commas (tl (dropWhile is_space cs))
      else c # re_sub_commas cs)"
  by pat_completeness auto
termination
  by (relation "measure length")
     (auto simp: less_Suc_eq_le intro: order_trans [OF diff_le_self length_dropWhile_le])

definition fence :: string where
  "fence = [CHR 0x60, CHR 0x60, CHR 0x60]"

definition json_fence :: string where
  "json_fence = fence @ ''json''"

text \<open>\<^verbatim>\<open>_clean_json_response\<close>.\<close>

definition strip_code_block :: "string \<Rightarrow> string" where
  "strip_code_block content =
     (if sublist json_fence content then
        (let start = py_find content json_fence + 7;
             end = py_find_from content fence start
         in py_slice content start end)
      else if sublist fence content then
        (let start = py_find content fence + 3;
             end = py_rfind content fence
         in py_slice content start end)
      else content)"

definition json_object_part :: "string \<Rightarrow> string" where
  "json_object_part content =
     (let start_idx = py_find content ''{'';
          end_idx = py_rfind content ''}'' + 1
      in if start_idx \<noteq> - 1 \<and> end_idx > start_idx
         then py_slice content start_idx end_idx else content)"

definition clean_json_response :: "string \<Rightarrow> string" where
  "clean_json_response content =
     py_strip (re_sub_commas
       (replace_char (CHR 0x09) CHR '' ''
         (replace_char (CHR 0x0A) CHR '' ''
           (json_object_part (strip_code_block content)))))"

section \<open>Comparison, length and iteration of values\<close>

text \<open>A \<^verbatim>\<open>bool\<close> is an \<^verbatim>\<open>int\<close> in Python: \<^verbatim>\<open>True\<close> counts as 1 and \<^verbatim>\<open>False\<close> as 0.\<close>

fun num_of :: "json \<Rightarrow> int option" where
  "num_of (JInt n) = Some n"
| "num_of (JBool b) = Some (if b then 1 else 0)"
| "num_of _ = None"

text \<open>\<^verbatim>\<open>a == b\<close>, which never raises.\<close>

fun py_eq :: "json \<Rightarrow> json \<Rightarrow> bool" where
  "py_eq (JList xs) (JList ys) = list_all2 py_eq xs ys"
| "py_eq (JObj a) (JObj b) =
     (length a = length b \<and>
      list_all (\<lambda>(k, v). case map_of b k of None \<Rightarrow> False | Some w \<Rightarrow> py_eq v w) a)"
| "py_eq (JStr s) (JStr t) = (s = t)"
| "py_eq JNull JNull = True"
| "py_eq a b = (case (num_of a, num_of b) of (Some m, Some n) \<Rightarrow> m = n | _ \<Rightarrow> False)"

text \<open>
  \<^verbatim>\<open>a > b\<close>: numbers by value, strings and lists lexicographically, TypeError for
  any other pair.
\<close>

fun str_gt :: "string \<Rightarrow> string \<Rightarrow> bool" where
  "str_gt [] t = False"
| "str_gt (c # s) [] = True"
| "str_gt (c # s) (d # t) = ((of_char c :: nat) > of_char d \<or> (c = d \<and> str_gt s t))"

fun py_gt :: "json \<Rightarrow> json \<Rightarrow> bool result"
  and list_gt :: "json list \<Rightarrow> json list \<Rightarrow> bool result" where
  "py_gt (JList xs) (JList ys) = list_gt xs ys"
| "py_gt (JStr s) (JStr t) = Inr (str_gt s t)"
| "py_gt a b =
     (case (num_of a, num_of b) of (Some m, Some n) \<Rightarrow> Inr (m > n) | _ \<Rightarrow> Inl TypeError)"
| "list_gt [] ys = Inr False"
| "list_gt (x # xs) [] = Inr True"
| "list_gt (x # xs) (y # ys) = (if py_eq x y then list_gt xs ys else py_gt x y)"

text \<open>
  \<^verbatim>\<open>max(values, default=d)\<close>: the first value is the running maximum, and a later
  value replaces it when it is greater.
\<close>

fun max_from :: "json \<Rightarrow> json list \<Rightarrow> json result" where
  "max_from m [] = Inr m"
| "max_from m (x # xs) = bind_r (py_gt x m) (\<lambda>g. max_from (if g then x else m) xs)"

definition py_max :: "json list \<Rightarrow> json \<Rightarrow> json result" where
  "py_max vs dflt = (case vs of [] \<Rightarrow> Inr dflt | v # rest \<Rightarrow> max_from v rest)"

text \<open>\<^verbatim>\<open>len(v)\<close> and the elements a \<^verbatim>\<open>for\<close> loop over \<open>v\<close> visits.\<close>

fun py_len :: "json \<Rightarrow> nat result" where
  "py_len (JList xs) = Inr (length xs)"
| "py_len (JStr s) = Inr (length s)"
| "py_len (JObj d) = Inr (length d)"
| "py_len _ = Inl TypeError"

fun py_iter :: "json \<Rightarrow> json list result" where
  "py_iter (JList xs) = Inr xs"
| "py_iter (JStr s) = Inr (map (\<lambda>c. JStr [c]) s)"
| "py_iter (JObj d) = Inr (map (\<lambda>kv. JStr (fst kv)) d)"
| "py_iter _ = Inl TypeError"

text \<open>\<^verbatim>\<open>d[k] = v\<close>: an existing key keeps its place, a new key goes to the end.\<close>

fun dict_set :: "(string \<times> json) list \<Rightarrow> string \<Rightarrow> json \<Rightarrow> (string \<times> json) list" where
  "dict_set [] k v = [(k, v)]"
| "dict_set (kv # d) k v = (if fst kv = k then (k, v) # d else kv # dict_set d k v)"

fun py_setitem :: "json \<Rightarrow> string \<Rightarrow> json \<Rightarrow> json result" where
  "py_setitem (JObj d) k v = Inr (JObj (dict_set d k v))"
| "py_setitem _ k v = Inl TypeError"

text \<open>Running a step over a list, stopping at the first step that raises.\<close>

fun map_r :: "('a \<Rightarrow> 'b result) \<Rightarrow> 'a list \<Rightarrow> 'b list result" where
  "map_r f [] = Inr []"
| "map_r f (x # xs) = bind_r (f x) (\<lambda>y. bind_r (map_r f xs) (\<lambda>ys. Inr (y # ys)))"

section \<open>The stage-1 fallback\<close>

definition jstrs :: "string list \<Rightarrow> json" where
  "jstrs xs = JList (map JStr xs)"

definition ml_words :: "string list" where
  "ml_words = [''machine learning'', ''ml'', ''ai'', ''model'', ''algorithm'', ''data'']"

definition architecture_words :: "string list" where
  "architecture_words = [''architecture'', ''system'', ''software'', ''api'', ''database'']"

definition business_words :: "string list" where
  "business_words = [''business'', ''strategy'', ''marketing'', ''sales'', ''revenue'']"

definition education_words :: "string list" where
  "education_words = [''learn'', ''education'', ''course'', ''study'', ''training'']"

text \<open>\<^verbatim>\<open>any(word in prompt_lower for word in words)\<close>.\<close>

definition any_in :: "string list \<Rightarrow> string \<Rightarrow> bool" where
  "any_in ws prompt_lower = list_ex (\<lambda>w. sublist w prompt_lower) ws"

text \<open>The \<^verbatim>\<open>if\<close>/\<^verbatim>\<open>elif\<close> chain of \<^verbatim>\<open>_create_intelligent_fallback\<close> that names the domain.\<close>

definition fallback_domain :: "string \<Rightarrow> string" where
  "fallback_domain prompt_lower =
     (if any_in ml_words prompt_lower then ''machine_learning''
      else if any_in architecture_words prompt_lower then ''software_architecture''
      else if any_in business_words prompt_lower then ''business_strategy''
      else if any_in education_words prompt_lower then ''education''
      else ''general'')"

definition stop_words :: "string list" where
  "stop_words =
     [''a'', ''an'', ''the'', ''and'', ''or'', ''but'', ''in'', ''on'', ''at'', ''to'', ''for'',
      ''of'', ''with'', ''by'', ''from'', ''about'', ''how'', ''what'', ''when'', ''where'',
      ''why'', ''create'', ''make'', ''generate'', ''mindmap'', ''map'', ''system'', ''design'']"

definition key_words :: "string \<Rightarrow> string list" where
  "key_words prompt =
     take 8 (filter (\<lambda>w. py_lower w \<notin> set stop_words \<and> length w > 3) (py_split prompt))"

definition main_topic_of :: "string \<Rightarrow> string" where
  "main_topic_of prompt = py_title (join_space (take 4 (py_split prompt)))"

text \<open>\<^verbatim>\<open>_get_domain_tools\<close> and \<^verbatim>\<open>_get_domain_stakeholders\<close>.\<close>

definition get_domain_tools :: "string \<Rightarrow> json" where
  "get_domain_tools domain =
     jstrs (case map_of
       [(''machine_learning'', [''Python'', ''TensorFlow'', ''scikit-learn'', ''MLflow'']),
        (''software_architecture'', [''Docker'', ''Kubernetes'', ''AWS/Azure'', ''MongoDB'']),
        (''business_strategy'', [''Excel'', ''Tableau'', ''Salesforce'', ''HubSpot'']),
        (''education'',
           [''LMS Platform'', ''Assessment Tools'', ''Video Conferencing'', ''Analytics''])]
       domain of
         Some tools \<Rightarrow> tools
       | None \<Rightarrow> [''Generic Tool 1'', ''Platform 2'', ''Framework 3''])"

definition get_domain_stakeholders :: "string \<Rightarrow> json" where
  "get_domain_stakeholders domain =
     jstrs (case map_of
       [(''machine_learning'', [''Data Scientists'', ''ML Engineers'', ''Product Managers'']),
        (''software_architecture'', [''Software Architects'', ''DevOps Engineers'', ''QA Team'']),
        (''business_strategy'', [''Business Analysts'', ''Executive Team'', ''Marketing'']),
        (''education'', [''Instructors'', ''Students'', ''Academic Administration''])]
       domain of
         Some people \<Rightarrow> people
       | None \<Rightarrow> [''Project Manager'', ''Technical Team'', ''Stakeholders''])"

definition domain_words :: "string \<Rightarrow> string" where
  \<comment> \<open>\<^verbatim>\<open>domain.replace('_', ' ')\<close>\<close>
  "domain_words domain = replace_char CHR ''_'' CHR '' '' domain"

definition root_concept :: "string \<Rightarrow> string \<Rightarrow> json" where
  "root_concept domain main_topic = JObj
     [(''id'', JStr ''root''),
      (''title'', JStr main_topic),
      (''description'', JStr (''Comprehensive '' @ domain_words domain @ '' system addressing ''
          @ py_lower main_topic)),
      (''level'', JInt 0),
      (''parent'', JNull),
      (''category'', JStr ''system''),
      (''node_type'', JStr ''start''),
      (''what'', JStr (''Complete '' @ py_lower main_topic @ '' implementation'')),
      (''why'', JStr (''Addresses critical business need in '' @ domain_words domain)),
      (''how'', JStr ''Systematic approach with proven methodologies''),
      (''examples'', jstrs [''Industry example 1 for '' @ main_topic, ''Use case in '' @ domain]),
      (''metrics'',
         jstrs [''Success rate: >90%'', ''Implementation time: 3-6 months'', ''ROI: 2-5x'']),
      (''details'', jstrs
         [''Core architecture for '' @ py_lower main_topic,
          ''Scalable and maintainable design'',
          ''Integration with existing systems'']),
      (''processes'', jstrs
         [''Phase 1: Requirements and planning'',
          ''Phase 2: Design and development'',
          ''Phase 3: Testing and deployment'',
          ''Phase 4: Monitoring and optimization'']),
      (''considerations'', jstrs
         [''Risk mitigation and contingency planning'',
          ''Resource allocation and timeline management'']),
      (''tools_technologies'', get_domain_tools domain),
      (''stakeholders'', get_domain_stakeholders domain)]"

definition process_flow :: "string \<Rightarrow> string list \<Rightarrow> string list" where
  "process_flow domain kws =
     (if domain = ''machine_learning'' then
        [''Data Collection'', ''Feature Engineering'', ''Model Training'', ''Validation'',
         ''Deployment'', ''Monitoring'']
      else if domain = ''software_architecture'' then
        [''Requirements Analysis'', ''System Design'', ''Implementation'', ''Testing'',
         ''Deployment'', ''Maintenance'']
      else if domain = ''business_strategy'' then
        [''Market Analysis'', ''Strategy Planning'', ''Resource Allocation'', ''Execution'',
         ''Performance Tracking'']
      else if length kws \<ge> 6 then take 6 kws
      else [''Planning'', ''Design'', ''Implementation'', ''Testing'', ''Deployment''])"

text \<open>The concept and the relationship the loop appends for stage \<open>i\<close> of the flow.\<close>

definition process_id :: "nat \<Rightarrow> string" where
  "process_id n = ''process_'' @ str_nat n"

definition process_concept :: "string \<Rightarrow> string \<Rightarrow> string list \<Rightarrow> nat \<Rightarrow> string \<Rightarrow> json" where
  "process_concept domain main_topic flow i process = JObj
     [(''id'', JStr (process_id (i + 1))),
      (''title'', JStr process),
      (''description'', JStr (''Comprehensive '' @ py_lower process
          @ '' stage with detailed implementation'')),
      (''level'', JInt 1),
      (''parent'', JStr ''root''),
      (''category'', JStr ''process''),
      (''node_type'', JStr (if int i < int (length flow) - 1 then ''process'' else ''outcome'')),
      (''what'', JStr (''Execute '' @ py_lower process @ '' with best practices'')),
      (''why'', JStr (''Critical step for successful '' @ py_lower main_topic)),
      (''how'', JStr (''Systematic approach to '' @ py_lower process)),
      (''examples'', jstrs
         [''Example method for '' @ process, ''Tool/technique for '' @ process]),
      (''metrics'', jstrs
         [process @ '' completion: 100%'', ''Quality score: >85%'',
          ''Timeline adherence: >90%'']),
      (''details'', jstrs
         [''Key deliverables for '' @ py_lower process,
          ''Quality criteria and acceptance tests'',
          ''Dependencies and prerequisites'']),
      (''processes'', jstrs
         [''Step 1: '' @ process @ '' planning and preparation'',
          ''Step 2: '' @ process @ '' execution'',
          ''Step 3: '' @ process @ '' validation and review'']),
      (''considerations'', jstrs
         [''Common challenges in '' @ py_lower process,
          ''Best practices for '' @ py_lower process]),
      (''tools_technologies'', get_domain_tools domain),
      (''stakeholders'', get_domain_stakeholders domain)]"

definition process_relationship :: "string list \<Rightarrow> nat \<Rightarrow> string \<Rightarrow> json" where
  "process_relationship flow i process = JObj
     [(''from'', JStr (if i = 0 then ''root'' else process_id i)),
      (''to'', JStr (process_id (i + 1))),
      (''type'', JStr (if i = 0 then ''initiates'' else ''leads_to'')),
      (''description'', JStr (''Sequential flow from ''
          @ (if i = 0 then ''start'' else flow ! (i - 1)) @ '' to '' @ process))]"

text \<open>\<^verbatim>\<open>_create_intelligent_fallback\<close>.\<close>

definition create_intelligent_fallback :: "string \<Rightarrow> json" where
  "create_intelligent_fallback prompt =
     (let domain = fallback_domain (py_lower prompt);
          main_topic = main_topic_of prompt;
          flow = process_flow domain (key_words prompt)
      in JObj
        [(''main_topic'', JStr main_topic),
         (''topic_description'', JStr (''Comprehensive '' @ domain_words domain
             @ '' implementation covering all critical aspects'')),
         (''mindmap_type'', JStr ''flowchart''),
         (''domain'', JStr domain),
         (''complexity_level'', JStr ''intermediate''),
         (''workflow_type'', JStr ''sequential''),
         (''concepts'', JList (root_concept domain main_topic
             # map (\<lambda>(i, process). process_concept domain main_topic flow i process)
                 (List.enumerate 0 flow))),
         (''relationships'', JList
             (map (\<lambda>(i, process). process_relationship flow i process)
               (List.enumerate 0 flow)))])"

section \<open>The stage-2 fallback\<close>

definition color_map :: "(string \<times> string) list" where
  "color_map =
     [(''start'', ''#2c3e50''), (''process'', ''#3498db''), (''decision'', ''#e74c3c''),
      (''outcome'', ''#27ae60''), (''checkpoint'', ''#f39c12''), (''end'', ''#9b59b6'')]"

text \<open>
  \<^verbatim>\<open>color_map.get(node_type, "#3498db")\<close>: a list or a dictionary cannot be hashed and
  raises TypeError; any other value that is no key of the map gets the default.
\<close>

fun color_of :: "json \<Rightarrow> json result" where
  "color_of (JStr t) =
     Inr (JStr (case map_of color_map t of None \<Rightarrow> ''#3498db'' | Some c \<Rightarrow> c))"
| "color_of (JList xs) = Inl TypeError"
| "color_of (JObj d) = Inl TypeError"
| "color_of _ = Inr (JStr ''#3498db'')"

text \<open>
  \<^verbatim>\<open>v[:30]\<close>: a string and a list can be sliced, the other values raise (a dictionary
  with TypeError before Python 3.12 and with KeyError from then on; the model says
  TypeError).
\<close>

fun slice30 :: "json \<Rightarrow> json result" where
  "slice30 (JStr t) = Inr (JStr (take 30 t))"
| "slice30 (JList xs) = Inr (JList (take 30 xs))"
| "slice30 _ = Inl TypeError"

text \<open>
  The position and size of node \<open>i\<close>: the anchor for level 0, else an offset by the
  level, whose arithmetic raises TypeError on a level that is no number.
\<close>

definition node_position :: "nat \<Rightarrow> json \<Rightarrow> (int \<times> int \<times> int \<times> int) result" where
  "node_position i level =
     (if py_eq level (JInt 0) then Inr (600, 150, 300, 100)
      else case num_of level of
             None \<Rightarrow> Inl TypeError
           | Some n \<Rightarrow> Inr (600 + (n - 1) * 50, 150 + int i * 200, 250, 80))"

text \<open>The body of the loop over the concepts, for the concept at index \<open>i\<close>.\<close>

fun fallback_node :: "nat \<Rightarrow> json \<Rightarrow> json result" where
  "fallback_node i (JObj c) =
     (let node_type = dict_get c ''node_type'' (JStr ''process'');
          level = dict_get c ''level'' (JInt 0)
      in bind_r (node_position i level) (\<lambda>(x, y, width, height).
         bind_r (py_getitem (JObj c) ''id'') (\<lambda>cid.
         bind_r (py_getitem (JObj c) ''title'') (\<lambda>t.
         bind_r (slice30 t) (\<lambda>title.
         bind_r (color_of node_type) (\<lambda>color. Inr (JObj
           [(''id'', cid),
            (''title'', title),
            (''description'', dict_get c ''description'' (JStr ''Process component'')),
            (''level'', level),
            (''x'', JInt x),
            (''y'', JInt y),
            (''width'', JInt width),
            (''height'', JInt height),
            (''color'', color),
            (''shape'', JStr (if py_eq node_type (JStr ''decision'')
                              then ''diamond'' else ''rectangle'')),
            (''category'', dict_get c ''category'' (JStr ''process'')),
            (''node_type'', node_type),
            (''what'', dict_get c ''what'' (JStr ''Process step'')),
            (''why'', dict_get c ''why'' (JStr ''Critical for success'')),
            (''how'', dict_get c ''how'' (JStr ''Systematic implementation'')),
            (''examples'', dict_get c ''examples'' (jstrs [''Example 1'', ''Example 2''])),
            (''metrics'', dict_get c ''metrics'' (jstrs [''Metric 1'', ''Metric 2''])),
            (''details'', dict_get c ''details'' (jstrs [''Detail 1'', ''Detail 2''])),
            (''processes'', dict_get c ''processes'' (jstrs [''Step 1'', ''Step 2''])),
            (''considerations'', dict_get c ''considerations'' (jstrs [''Consideration 1''])),
            (''tools_technologies'', dict_get c ''tools_technologies'' (jstrs [''Tool 1''])),
            (''stakeholders'', dict_get c ''stakeholders'' (jstrs [''Role 1''])),
            (''expanded'', JBool (py_eq level (JInt 0)))])))))))"
| "fallback_node i _ = Inl AttributeError"

text \<open>The body of the loop over the relationships.\<close>

definition fallback_edge :: "nat \<Rightarrow> json \<Rightarrow> json result" where
  "fallback_edge i rel =
     bind_r (py_getitem rel ''from'') (\<lambda>src.
     bind_r (py_getitem rel ''to'') (\<lambda>dst.
     bind_r (py_get rel ''type'' (JStr ''connects'')) (\<lambda>label.
     bind_r (py_get rel ''description'' (JStr ''Process flow'')) (\<lambda>description. Inr (JObj
       [(''id'', JStr (''edge_'' @ str_nat (i + 1))),
        (''from'', src),
        (''to'', dst),
        (''label'', label),
        (''description'', description),
        (''color'', JStr ''#34495e''),
        (''weight'', JInt 3),
        (''style'', JStr ''solid'')])))))"

text \<open>\<^verbatim>\<open>[node.get("level", 0) for node in nodes]\<close>.\<close>

definition node_levels :: "json list \<Rightarrow> json list result" where
  "node_levels nodes = map_r (\<lambda>node. py_get node ''level'' (JInt 0)) nodes"

text \<open>\<^verbatim>\<open>_create_detailed_fallback_structure\<close>.\<close>

fun create_detailed_fallback_structure :: "json \<Rightarrow> json result" where
  "create_detailed_fallback_structure (JObj p) =
     (let title = dict_get p ''main_topic'' (JStr ''Mindmap'');
          description = dict_get p ''topic_description'' (JStr ''Comprehensive system analysis'');
          concepts = dict_get p ''concepts'' (JList []);
          domain = dict_get p ''domain'' (JStr ''general'');
          workflow_type = dict_get p ''workflow_type'' (JStr ''sequential'')
      in bind_r
           (if py_eq workflow_type (JStr ''flowchart'') \<or> py_eq workflow_type (JStr ''sequential'')
            then bind_r (py_iter concepts) (\<lambda>cs.
                   map_r (\<lambda>(i, concept). fallback_node i concept) (List.enumerate 0 cs))
            else Inr []) (\<lambda>nodes.
         bind_r (py_iter (dict_get p ''relationships'' (JList []))) (\<lambda>rels.
         bind_r (map_r (\<lambda>(i, rel). fallback_edge i rel) (List.enumerate 0 rels)) (\<lambda>edges.
         bind_r (node_levels nodes) (\<lambda>levels.
         bind_r (py_max levels (JInt 0)) (\<lambda>max_depth. Inr (JObj
           [(''title'', title),
            (''description'', description),
            (''layout_type'', JStr ''flowchart''),
            (''domain'', domain),
            (''complexity'', dict_get p ''complexity_level'' (JStr ''intermediate'')),
            (''workflow_type'', workflow_type),
            (''metadata'', JObj
               [(''total_nodes'', JInt (int (length nodes))),
                (''max_depth'', max_depth),
                (''creation_context'', JStr ''Enhanced intelligent structure'')]),
            (''nodes'', JList nodes),
            (''edges'', JList edges)])))))))"
| "create_detailed_fallback_structure _ = Inl AttributeError"

section \<open>The stage-3 fallback document\<close>

text \<open>The lines of a text, joined by line feeds.\<close>

fun join_lines :: "string list \<Rightarrow> string" where
  "join_lines [] = []"
| "join_lines [l] = l"
| "join_lines (l # m # ls) = l @ [CHR 0x0A] @ join_lines (m # ls)"

text \<open>
  The three blocks of the f-string of \<^verbatim>\<open>_create_detailed_fallback_xml\<close>: the metadata,
  the collection of nodes, which holds the one node \<open>root\<close>, and the collection of
  edges, which holds nothing.
\<close>

definition metadata_block :: "string \<Rightarrow> string \<Rightarrow> string \<Rightarrow> string \<Rightarrow> string list" where
  \<open>metadata_block title description timestamp original_prompt =
     [''    <metadata>'',
      ''        <title>'' @ title @ ''</title>'',
      ''        <description>'' @ description @ ''</description>'',
      ''        <created_at>'' @ timestamp @ ''</created_at>'',
      ''        <layout_type>hierarchical</layout_type>'',
      ''        <domain>general</domain>'',
      ''        <complexity>intermediate</complexity>'',
      ''        <total_nodes>1</total_nodes>'',
      ''        <max_depth>0</max_depth>'',
      ''        <generation_context>Generated from: '' @ original_prompt
          @ ''</generation_context>'',
      ''    </metadata>'']\<close>

definition root_node_block :: "string \<Rightarrow> string \<Rightarrow> string list" where
  \<open>root_node_block title description =
     [''        <node id="root" level="0" category="core" expanded="true">'',
      ''            <content>'',
      ''                <title>'' @ title @ ''</title>'',
      ''                <description>'' @ description @ ''</description>'',
      ''            </content>'',
      ''            <position x="400" y="300" width="200" height="80"/>'',
      ''            <style color="#2c3e50" shape="rectangle" border="solid"/>'',
      ''            <details>'',
      ''                <item>Core concept requiring systematic approach</item>'',
      ''                <item>Multiple interconnected components</item>'',
      ''            </details>'',
      ''            <processes>'',
      ''                <step>Initial analysis and planning</step>'',
      ''                <step>Implementation and execution</step>'',
      ''            </processes>'',
      ''            <considerations>'',
      ''                <point>Consider stakeholder requirements</point>'',
      ''                <point>Ensure scalable solution</point>'',
      ''            </considerations>'',
      ''        </node>'']\<close>

definition document_head :: "string list" where
  \<open>document_head =
     [''<?xml version="1.0" encoding="UTF-8"?>'',
      ''<mindmap version="2.0" editable="true">'']\<close>

definition edges_block :: "string list" where
  "edges_block = [''    <edges>'', ''    </edges>'']"

definition fallback_document :: "string \<Rightarrow> string \<Rightarrow> string \<Rightarrow> string \<Rightarrow> string" where
  "fallback_document title description timestamp original_prompt = join_lines
     (document_head
      @ metadata_block title description timestamp original_prompt
      @ [''    <nodes>''] @ root_node_block title description @ [''    </nodes>'']
      @ edges_block
      @ [''</mindmap>''])"

section \<open>The four stages\<close>

text \<open>
  What lies outside the repository is a parameter of the run: the reply of the model
  service to each call, \<^verbatim>\<open>json.loads\<close> of the standard library (\<open>None\<close> where it
  raises), the text Python writes for a value that is no string when an f-string
  formats it, and the clock. A call answers with a text, or the lines up to the
  assignment of the stripped text raise: \<^verbatim>\<open>json.JSONDecodeError\<close>, which stages 1 and 2
  catch in a clause of its own, or another exception.
\<close>

datatype reply = Raises | RaisesDecodeError | Text string

record env =
  parse_reply :: "nat \<Rightarrow> reply"
  structure_reply :: "nat \<Rightarrow> reply"
  xml_reply :: reply
  validate_reply :: reply
  json_loads :: "string \<Rightarrow> json option"
  py_repr :: "json \<Rightarrow> string"
  now_isoformat :: string

definition max_retries :: nat where
  "max_retries = 3"

text \<open>
  One pass through the body of \<^verbatim>\<open>for attempt in range(max_retries)\<close> ends in one of
  three ways: the \<^verbatim>\<open>try\<close> block returns a value; the pass ends in an \<^verbatim>\<open>except\<close> clause
  or in the \<^verbatim>\<open>else\<close> branch and the loop goes on; or an exception leaves an \<^verbatim>\<open>except\<close>
  clause and so the function. The local variable \<^verbatim>\<open>content\<close> is assigned only after the
  call has answered and keeps its value from one pass to the next, so the loop carries
  whether it is bound.
\<close>

datatype 'a attempt_end = Returned 'a | Retry bool | Escaped py_error

fun run_attempts :: "(nat \<Rightarrow> bool \<Rightarrow> 'a attempt_end) \<Rightarrow> nat list \<Rightarrow> bool \<Rightarrow> 'a option result" where
  "run_attempts f [] bound = Inr None"
| "run_attempts f (i # is) bound =
     (case f i bound of
        Returned v \<Rightarrow> Inr (Some v)
      | Retry b \<Rightarrow> run_attempts f is b
      | Escaped err \<Rightarrow> Inl err)"

text \<open>
  The clause \<^verbatim>\<open>except json.JSONDecodeError\<close> of stages 1 and 2: on the last attempt it
  prints \<^verbatim>\<open>content[:300]\<close>, which raises \<^verbatim>\<open>UnboundLocalError\<close> when \<^verbatim>\<open>content\<close> was never
  assigned.
\<close>

definition decode_error_clause :: "nat \<Rightarrow> bool \<Rightarrow> 'a attempt_end" where
  "decode_error_clause attempt bound =
     (if attempt = max_retries - 1 \<and> \<not> bound then Escaped UnboundLocalError else Retry bound)"

text \<open>One pass through the loop body of \<^verbatim>\<open>_parse_concepts_detailed\<close>.\<close>

definition parse_attempt :: "env \<Rightarrow> nat \<Rightarrow> bool \<Rightarrow> json attempt_end" where
  "parse_attempt e attempt bound =
     (case parse_reply e attempt of
        Raises \<Rightarrow> Retry bound
      | RaisesDecodeError \<Rightarrow> decode_error_clause attempt bound
      | Text t \<Rightarrow>
          (case json_loads e (clean_json_response (py_strip t)) of
             None \<Rightarrow> decode_error_clause attempt True
           | Some parsed_data \<Rightarrow>
               (case validate_detailed_parsed_data parsed_data of
                  Inr True \<Rightarrow> Returned parsed_data
                | _ \<Rightarrow> Retry True)))"

definition parse_concepts_detailed :: "env \<Rightarrow> string \<Rightarrow> json result" where
  "parse_concepts_detailed e prompt =
     bind_r (run_attempts (parse_attempt e) [0..<max_retries] False) (\<lambda>found.
       case found of
         Some parsed_data \<Rightarrow> Inr parsed_data
       | None \<Rightarrow> Inr (create_intelligent_fallback prompt))"

text \<open>The two assignments into \<^verbatim>\<open>structured_data["metadata"]\<close> after validation.\<close>

definition update_metadata :: "json \<Rightarrow> json result" where
  "update_metadata structured_data =
     bind_r (py_get structured_data ''nodes'' (JList [])) (\<lambda>ns.
     bind_r (py_len ns) (\<lambda>n.
     bind_r (py_getitem structured_data ''metadata'') (\<lambda>md.
     bind_r (py_setitem md ''total_nodes'' (JInt (int n))) (\<lambda>md1.
     bind_r (py_setitem structured_data ''metadata'' md1) (\<lambda>sd1.
     bind_r (py_get sd1 ''nodes'' (JList [])) (\<lambda>ns1.
     bind_r (py_iter ns1) (\<lambda>nodes.
     bind_r (node_levels nodes) (\<lambda>levels.
     bind_r (py_max levels (JInt 0)) (\<lambda>max_depth.
     bind_r (py_getitem sd1 ''metadata'') (\<lambda>md2.
     bind_r (py_setitem md2 ''max_depth'' max_depth) (\<lambda>md3.
       py_setitem sd1 ''metadata'' md3)))))))))))"

text \<open>One pass through the loop body of \<^verbatim>\<open>_structure_knowledge_detailed\<close>.\<close>

definition structure_attempt :: "env \<Rightarrow> nat \<Rightarrow> bool \<Rightarrow> json attempt_end" where
  "structure_attempt e attempt bound =
     (case structure_reply e attempt of
        Raises \<Rightarrow> Retry bound
      | RaisesDecodeError \<Rightarrow> decode_error_clause attempt bound
      | Text t \<Rightarrow>
          (case json_loads e (clean_json_response (py_strip t)) of
             None \<Rightarrow> decode_error_clause attempt True
           | Some structured_data \<Rightarrow>
               (case validate_detailed_structured_data structured_data of
                  Inr True \<Rightarrow>
                    (case update_metadata structured_data of
                       Inr updated \<Rightarrow> Returned updated
                     | Inl _ \<Rightarrow> Retry True)
                | _ \<Rightarrow> Retry True)))"

text \<open>
  \<^verbatim>\<open>_structure_knowledge_detailed\<close>. The prompt it builds first calls
  \<^verbatim>\<open>parsed_data.get\<close>, outside the \<^verbatim>\<open>try\<close> block, and so does the fallback after the
  loop.
\<close>

definition structure_knowledge_detailed :: "env \<Rightarrow> json \<Rightarrow> json result" where
  "structure_knowledge_detailed e parsed_data =
     bind_r (py_get parsed_data ''main_topic'' (JStr ''Mindmap'')) (\<lambda>_.
     bind_r (run_attempts (structure_attempt e) [0..<max_retries] False) (\<lambda>found.
       case found of
         Some structured_data \<Rightarrow> Inr structured_data
       | None \<Rightarrow> create_detailed_fallback_structure parsed_data))"

text \<open>The cleaning of a reply in stages 3 and 4.\<close>

definition xml_fence :: string where
  "xml_fence = fence @ ''xml''"

definition clean_xml_reply :: "string \<Rightarrow> string" where
  "clean_xml_reply t =
     (let a = py_strip t;
          b = (if prefix xml_fence a then drop 6 a else a);
          c = (if suffix fence b then py_slice b 0 (- 3) else b)
      in py_strip c)"

text \<open>What an f-string writes for a value.\<close>

definition format_value :: "env \<Rightarrow> json \<Rightarrow> string" where
  "format_value e v = (case v of JStr t \<Rightarrow> t | _ \<Rightarrow> py_repr e v)"

text \<open>\<^verbatim>\<open>_create_detailed_fallback_xml\<close>.\<close>

definition create_detailed_fallback_xml :: "env \<Rightarrow> json \<Rightarrow> string \<Rightarrow> string result" where
  "create_detailed_fallback_xml e structured_data original_prompt =
     bind_r (py_get structured_data ''title'' (JStr ''Mindmap'')) (\<lambda>title.
     bind_r (py_get structured_data ''description'' (JStr ''Comprehensive mindmap'')) (\<lambda>description.
       Inr (fallback_document (format_value e title) (format_value e description)
              (now_isoformat e) original_prompt)))"

text \<open>
  \<^verbatim>\<open>_generate_detailed_xml\<close> and \<^verbatim>\<open>_validate_xml\<close>, whose one clause
  \<^verbatim>\<open>except Exception\<close> catches whatever the call raises.
\<close>

definition generate_detailed_xml :: "env \<Rightarrow> json \<Rightarrow> string \<Rightarrow> string result" where
  "generate_detailed_xml e structured_data original_prompt =
     (case xml_reply e of
        Text t \<Rightarrow> Inr (clean_xml_reply t)
      | _ \<Rightarrow> create_detailed_fallback_xml e structured_data original_prompt)"

definition validate_xml :: "env \<Rightarrow> string \<Rightarrow> string" where
  "validate_xml e xml_content =
     (case validate_reply e of
        Text t \<Rightarrow> clean_xml_reply t
      | _ \<Rightarrow> xml_content)"

text \<open>\<^verbatim>\<open>generate_mindmap\<close>: \<open>Inl\<close> is an exception that reaches the caller.\<close>

definition generate_mindmap :: "env \<Rightarrow> string \<Rightarrow> string result" where
  "generate_mindmap e prompt =
     bind_r (parse_concepts_detailed e prompt) (\<lambda>parsed_data.
     bind_r (structure_knowledge_detailed e parsed_data) (\<lambda>structured_data.
     bind_r (generate_detailed_xml e structured_data prompt) (\<lambda>xml_content.
       Inr (validate_xml e xml_content))))"

section \<open>Values and predicates the theorems speak about\<close>

subsection \<open>What the validators and the fallbacks are asked for\<close>

text \<open>
  What the test of the first concept, \<^verbatim>\<open>all(key in concept for key in ...)\<close>, comes to
  for each kind of value.
\<close>

definition first_concept_ok :: "json \<Rightarrow> bool result" where
  "first_concept_ok c =
     (case c of
        JObj cd \<Rightarrow> Inr (set required_concept_keys \<subseteq> dom (map_of cd))
      | JList xs \<Rightarrow> Inr (JStr ` set required_concept_keys \<subseteq> set xs)
      | JStr t \<Rightarrow> Inr (list_all (\<lambda>k. sublist k t) required_concept_keys)
      | _ \<Rightarrow> Inl TypeError)"

text \<open>
  The data on which the stage-2 fallback returns: when the workflow is one of the two
  for which the fallback builds nodes, every concept is a dictionary with an \<open>id\<close>, a
  title that can be sliced, a level that is a number and a node type that can be
  hashed; every relationship is a dictionary with \<open>from\<close> and \<open>to\<close>.
\<close>

definition plain_concept :: "json \<Rightarrow> bool" where
  "plain_concept c =
     (case c of
        JObj d \<Rightarrow>
          map_of d ''id'' \<noteq> None
          \<and> (case map_of d ''title'' of Some (JStr _) \<Rightarrow> True | Some (JList _) \<Rightarrow> True | _ \<Rightarrow> False)
          \<and> num_of (dict_get d ''level'' (JInt 0)) \<noteq> None
          \<and> (case dict_get d ''node_type'' (JStr ''process'') of
                JList _ \<Rightarrow> False | JObj _ \<Rightarrow> False | _ \<Rightarrow> True)
      | _ \<Rightarrow> False)"

definition plain_relationship :: "json \<Rightarrow> bool" where
  "plain_relationship r =
     (case r of JObj d \<Rightarrow> map_of d ''from'' \<noteq> None \<and> map_of d ''to'' \<noteq> None | _ \<Rightarrow> False)"

definition builds_nodes :: "(string \<times> json) list \<Rightarrow> bool" where
  "builds_nodes p =
     (py_eq (dict_get p ''workflow_type'' (JStr ''sequential'')) (JStr ''flowchart'')
      \<or> py_eq (dict_get p ''workflow_type'' (JStr ''sequential'')) (JStr ''sequential''))"

definition plain_parsed :: "json \<Rightarrow> bool" where
  "plain_parsed v =
     (case v of
        JObj p \<Rightarrow>
          (if builds_nodes p
           then (case py_iter (dict_get p ''concepts'' (JList [])) of
                   Inr cs \<Rightarrow> list_all plain_concept cs | Inl _ \<Rightarrow> False)
           else True)
          \<and> (case py_iter (dict_get p ''relationships'' (JList [])) of
               Inr rs \<Rightarrow> list_all plain_relationship rs | Inl _ \<Rightarrow> False)
      | _ \<Rightarrow> False)"

text \<open>
  A node as the stage-2 validator wants the first one, with a level that is a number.
\<close>

definition node_like :: "json \<Rightarrow> bool" where
  "node_like n = (\<exists>nd. n = JObj nd \<and> set required_node_keys \<subseteq> dom (map_of nd)
                   \<and> (\<exists>l. map_of nd ''level'' = Some l \<and> num_of l \<noteq> None))"

text \<open>
  The invariant of claim C3: the two counters of the metadata are those of the list of
  nodes of the same layout.
\<close>

definition metadata_recomputed :: "json \<Rightarrow> bool" where
  "metadata_recomputed layout =
     (case (py_getitem layout ''nodes'', py_getitem layout ''metadata'') of
        (Inr (JList nodes), Inr md) \<Rightarrow>
          py_getitem md ''total_nodes'' = Inr (JInt (int (length nodes)))
          \<and> (case node_levels nodes of
                Inr levels \<Rightarrow> py_getitem md ''max_depth'' = py_max levels (JInt 0)
              | Inl _ \<Rightarrow> False)
      | _ \<Rightarrow> False)"

subsection \<open>The calls of a run\<close>

text \<open>
  A call raises when it does not answer with a text. In a stage whose first two calls
  raise and whose third call raises \<^verbatim>\<open>json.JSONDecodeError\<close>, \<^verbatim>\<open>content\<close> has never been
  assigned when the clause of the last attempt prints it.
\<close>

definition raises :: "reply \<Rightarrow> bool" where
  "raises r = (case r of Text _ \<Rightarrow> False | _ \<Rightarrow> True)"



subsection \<open>The fallback of stage 1 as a graph\<close>

definition domain_of :: "string \<Rightarrow> json result" where
  "domain_of prompt = py_getitem (create_intelligent_fallback prompt) ''domain''"

definition all_words :: "string list" where
  "all_words = ml_words @ architecture_words @ business_words @ education_words"


definition field :: "string \<Rightarrow> json \<Rightarrow> json option" where
  "field k v = (case v of JObj d \<Rightarrow> map_of d k | _ \<Rightarrow> None)"

definition concepts_of :: "json \<Rightarrow> json list" where
  "concepts_of g = (case field ''concepts'' g of Some (JList cs) \<Rightarrow> cs | _ \<Rightarrow> [])"

definition relationships_of :: "json \<Rightarrow> json list" where
  "relationships_of g = (case field ''relationships'' g of Some (JList rs) \<Rightarrow> rs | _ \<Rightarrow> [])"

definition is_root :: "json \<Rightarrow> bool" where
  "is_root c = (field ''parent'' c = Some JNull \<and> field ''level'' c = Some (JInt 0))"

definition child_of :: "json list \<Rightarrow> json \<Rightarrow> bool" where
  \<comment> \<open>the parent of \<open>c\<close> is the id of a concept of the list, one level above \<open>c\<close>\<close>
  "child_of cs c =
     (case (field ''parent'' c, field ''level'' c) of
        (Some (JStr pid), Some (JInt l)) \<Rightarrow>
          list_ex (\<lambda>q. field ''id'' q = Some (JStr pid) \<and> field ''level'' q = Some (JInt (l - 1))) cs
      | _ \<Rightarrow> False)"

text \<open>
  The invariant of the graph: every concept has an id, the ids are distinct, one
  concept is the root, every other concept is the child of a concept of the graph, the
  ends of the relationships are ids of the graph, and the relationships lead from each
  concept of the list to the next.
\<close>

definition graph_invariant :: "json \<Rightarrow> bool" where
  "graph_invariant g =
     (let cs = concepts_of g; rs = relationships_of g; ids = map (field ''id'') cs
      in None \<notin> set ids \<and> distinct ids
         \<and> length (filter is_root cs) = 1
         \<and> list_all (\<lambda>c. is_root c \<or> child_of cs c) cs
         \<and> list_all (\<lambda>r. field ''from'' r \<in> set ids \<and> field ''to'' r \<in> set ids) rs
         \<and> map (\<lambda>r. (field ''from'' r, field ''to'' r)) rs = zip ids (tl ids))"

definition stage_id :: "nat \<Rightarrow> json option" where
  "stage_id i = Some (JStr (process_id (Suc i)))"

subsection \<open>The fallback document and the sanitizer\<close>

text \<open>
  The number of places of a text at which a given text begins. The elements of a
  document are counted by their opening tags: that of a node is \<^verbatim>\<open><node\<close> and a
  blank, that of an edge \<^verbatim>\<open><edge\<close> and a blank.
\<close>

fun count_sub :: "string \<Rightarrow> string \<Rightarrow> nat" where
  "count_sub sub [] = 0"
| "count_sub sub (c # cs) = (if prefix sub (c # cs) then 1 else 0) + count_sub sub cs"



text \<open>
  The commas of the specification's words: a comma is trailing when white space and
  then a closing brace or bracket follow it, and the sanitizer is to remove these.
\<close>

fun drop_trailing_commas :: "string \<Rightarrow> string" where
  "drop_trailing_commas [] = []"
| "drop_trailing_commas (c # cs) =
     (if c = CHR '','' \<and> closes cs then drop_trailing_commas cs
      else c # drop_trailing_commas cs)"

definition spaced :: "string \<Rightarrow> string" where
  "spaced t = replace_char (CHR 0x09) CHR '' '' (replace_char (CHR 0x0A) CHR '' '' t)"

subsection \<open>Sample data and sample runs\<close>

text \<open>
  A run is given by the replies of the service and by \<^verbatim>\<open>json.loads\<close>. In the sample
  runs \<^verbatim>\<open>json.loads\<close> is given at the one text the run parses, with the value the
  standard library returns for that text; on other texts it is taken to raise.
\<close>

definition coffee_prompt :: string where
  "coffee_prompt = ''Explain how a coffee shop orders inventory''"

definition sample_concept :: json where
  "sample_concept = JObj
     [(''id'', JStr ''root''), (''title'', JStr ''Coffee''), (''description'', JStr ''Shop''),
      (''level'', JInt 0), (''what'', JStr ''w''), (''why'', JStr ''y''), (''how'', JStr ''h''),
      (''examples'', JList []), (''metrics'', JList [])]"

definition sample_parsed :: "json list \<Rightarrow> (string \<times> json) list" where
  "sample_parsed concepts =
     [(''main_topic'', JStr ''Coffee''), (''topic_description'', JStr ''Shop''),
      (''mindmap_type'', JStr ''flowchart''), (''concepts'', JList concepts),
      (''relationships'', JList [])]"


definition sample_node :: "string \<Rightarrow> int \<Rightarrow> json" where
  "sample_node name level = JObj
     [(''id'', JStr name), (''title'', JStr ''Coffee''), (''description'', JStr ''Shop''),
      (''level'', JInt level), (''x'', JInt 400), (''y'', JInt 200), (''details'', JList []),
      (''processes'', JList []), (''considerations'', JList [])]"

definition raising_env :: env where
  "raising_env = \<lparr>parse_reply = (\<lambda>_. Raises), structure_reply = (\<lambda>_. Raises),
     xml_reply = Raises, validate_reply = Raises, json_loads = (\<lambda>_. None),
     py_repr = (\<lambda>_. []), now_isoformat = ''2025-01-01T00:00:00''\<rparr>"

text \<open>
  A stage-2 reply of one node and no metadata, sent in a fenced block.
\<close>

definition bare_layout :: "(string \<times> json) list" where
  "bare_layout =
     [(''title'', JStr ''Coffee''), (''description'', JStr ''Shop''),
      (''layout_type'', JStr ''hierarchical''),
      (''nodes'', JList [sample_node ''root'' 0]), (''edges'', JList [])]"

definition bare_layout_text :: string where
  \<open>bare_layout_text = ''{"title": "Coffee", "description": "Shop", "layout_type": "hierarchical", "nodes": [{"id": "root", "title": "Coffee", "description": "Shop", "level": 0, "x": 400, "y": 200, "details": [], "processes": [], "considerations": []}], "edges": []}''\<close>

definition fenced :: "string \<Rightarrow> string" where
  "fenced t = json_fence @ [CHR 0x0A] @ t @ [CHR 0x0A] @ fence"

definition bare_layout_env :: env where
  "bare_layout_env = raising_env
     \<lparr>structure_reply := (\<lambda>_. Text (fenced bare_layout_text)),
      json_loads := (\<lambda>t. if t = bare_layout_text then Some (JObj bare_layout) else None)\<rparr>"

text \<open>
  A stage-2 reply of two nodes whose metadata are wrong, and the layout stage 2 makes
  of it.
\<close>

definition wrong_layout :: "(string \<times> json) list" where
  "wrong_layout =
     [(''title'', JStr ''Coffee''), (''description'', JStr ''Shop''),
      (''layout_type'', JStr ''hierarchical''),
      (''metadata'', JObj [(''total_nodes'', JInt 99), (''max_depth'', JInt 7)]),
      (''nodes'', JList [sample_node ''root'' 0, sample_node ''n1'' 2]),
      (''edges'', JList [])]"

definition wrong_layout_text :: string where
  \<open>wrong_layout_text = ''{"title": "Coffee", "description": "Shop", "layout_type": "hierarchical", "metadata": {"total_nodes": 99, "max_depth": 7}, "nodes": [{"id": "root", "title": "Coffee", "description": "Shop", "level": 0, "x": 400, "y": 200, "details": [], "processes": [], "considerations": []}, {"id": "n1", "title": "Coffee", "description": "Shop", "level": 2, "x": 400, "y": 200, "details": [], "processes": [], "considerations": []}], "edges": []}''\<close>

definition wrong_layout_env :: env where
  "wrong_layout_env = raising_env
     \<lparr>structure_reply := (\<lambda>_. Text wrong_layout_text),
      json_loads := (\<lambda>t. if t = wrong_layout_text then Some (JObj wrong_layout) else None)\<rparr>"

definition corrected_layout :: "(string \<times> json) list" where
  "corrected_layout =
     [(''title'', JStr ''Coffee''), (''description'', JStr ''Shop''),
      (''layout_type'', JStr ''hierarchical''),
      (''metadata'', JObj [(''total_nodes'', JInt 2), (''max_depth'', JInt 2)]),
      (''nodes'', JList [sample_node ''root'' 0, sample_node ''n1'' 2]),
      (''edges'', JList [])]"


definition no_id_concepts_text :: string where
  \<open>no_id_concepts_text = ''{"main_topic": "Coffee", "topic_description": "Shop", "mindmap_type": "flowchart", "concepts": [{"id": "root", "title": "Coffee", "description": "Shop", "level": 0, "what": "w", "why": "y", "how": "h", "examples": [], "metrics": []}, {"title": "Beans"}], "relationships": []}''\<close>

definition no_id_env :: env where
  "no_id_env = raising_env
     \<lparr>parse_reply := (\<lambda>_. Text no_id_concepts_text),
      json_loads := (\<lambda>t. if t = no_id_concepts_text
         then Some (JObj (sample_parsed [sample_concept, JObj [(''title'', JStr ''Beans'')]]))
         else None)\<rparr>"



definition decode_error_env :: env where
  "decode_error_env = raising_env
     \<lparr>parse_reply := (\<lambda>_. RaisesDecodeError), structure_reply := (\<lambda>_. RaisesDecodeError),
      xml_reply := RaisesDecodeError, validate_reply := RaisesDecodeError\<rparr>"

definition tag_prompt :: string where
  \<open>tag_prompt = ''Coffee <node id="x"/> <edge id="y"/>''\<close>

text \<open>
  A text with trailing commas and what the sanitizer makes of it.
\<close>

definition trailing_commas_text :: string where
  \<open>trailing_commas_text = ''{"a": [1, 2, ], "b": {"c": 3,},}''\<close>

definition cleaned_commas_text :: string where
  \<open>cleaned_commas_text = ''{"a": [1, 2 ], "b": {"c": 3}}''\<close>

section \<open>Auxiliary facts\<close>

lemma bind_r_simps [simp]:
  "bind_r (Inl e) f = Inl e" "bind_r (Inr v) f = f v"
  by (simp_all add: bind_r_def)

lemma all_in_dict: "all_in ks (JObj d) = Inr (set ks \<subseteq> dom (map_of d))"
  by (induction ks) (auto simp: dom_def)

lemma all_in_list: "all_in ks (JList xs) = Inr (JStr ` set ks \<subseteq> set xs)"
  by (induction ks) auto

lemma all_in_str: "all_in ks (JStr t) = Inr (list_all (\<lambda>k. sublist k t) ks)"
  by (induction ks) auto

lemma all_in_first: "all_in required_concept_keys c = first_concept_ok c"
  by (cases c) (simp_all add: first_concept_ok_def all_in_dict all_in_list all_in_str
      required_concept_keys_def)

lemma bind_r_bool_id: "bind_r r (\<lambda>ok. if \<not> ok then Inr False else Inr True) = r"
  by (cases r) auto


lemma domain_of_eq: "domain_of p = Inr (JStr (fallback_domain (py_lower p)))"
  by (simp add: domain_of_def create_intelligent_fallback_def Let_def)

lemma any_in_append: "any_in (xs @ ys) s = (any_in xs s \<or> any_in ys s)"
  by (simp add: any_in_def)


lemma validated_is_dict:
  assumes "validate_detailed_structured_data v = Inr True"
  shows "\<exists>d node rest. v = JObj d \<and> map_of d ''nodes'' = Some (JList (node # rest))"
proof (cases v)
  case (JObj d)
  with assms show ?thesis
    by (auto simp: validate_detailed_structured_data_def all_in_dict bind_r_def
        split: if_splits option.splits json.splits list.splits sum.splits)
next
  case (JList xs)
  with assms show ?thesis
    by (auto simp: validate_detailed_structured_data_def all_in_list bind_r_def split: if_splits)
next
  case (JStr t)
  with assms show ?thesis
    by (auto simp: validate_detailed_structured_data_def all_in_str bind_r_def split: if_splits)
qed (use assms in \<open>auto simp: validate_detailed_structured_data_def required_layout_keys_def\<close>)


lemma bind_r_Inr: "bind_r r f = Inr y \<longleftrightarrow> (\<exists>x. r = Inr x \<and> f x = Inr y)"
  by (cases r) auto

lemma map_of_dict_set: "map_of (dict_set d k v) k' = (if k' = k then Some v else map_of d k')"
  by (induction d) auto

lemma max_from_ints: "max_from (JInt m) (map JInt xs) = Inr (JInt (fold max xs m))"
  by (induction xs arbitrary: m) (auto simp: max_def)

lemma py_max_ints: "ls \<noteq> [] \<Longrightarrow> py_max (map JInt ls) d = Inr (JInt (Max (set ls)))"
proof (cases ls)
  case (Cons a list)
  with Max.set_eq_fold [of a list] show ?thesis
    by (simp add: py_max_def max_from_ints)
qed simp

lemma metadata_recomputed_iff:
  "metadata_recomputed layout \<longleftrightarrow>
     (\<exists>nodes levels md.
        py_getitem layout ''nodes'' = Inr (JList nodes)
        \<and> py_getitem layout ''metadata'' = Inr md
        \<and> py_getitem md ''total_nodes'' = Inr (JInt (int (length nodes)))
        \<and> node_levels nodes = Inr levels
        \<and> py_getitem md ''max_depth'' = py_max levels (JInt 0))"
proof (cases "py_getitem layout ''nodes''")
  case (Inl e)
  then show ?thesis by (simp add: metadata_recomputed_def)
next
  case (Inr ns)
  show ?thesis
  proof (cases "py_getitem layout ''metadata''")
    case (Inl e)
    with Inr show ?thesis by (simp add: metadata_recomputed_def split: json.splits)
  next
    case md: (Inr md)
    show ?thesis
    proof (cases ns)
      case (JList nodes)
      with Inr md show ?thesis
        by (cases "node_levels nodes") (auto simp: metadata_recomputed_def)
    qed (use Inr md in \<open>auto simp: metadata_recomputed_def\<close>)
  qed
qed

lemma update_metadata_recomputed:
  assumes v: "validate_detailed_structured_data v = Inr True"
    and u: "update_metadata v = Inr out"
  shows "metadata_recomputed out"
proof -
  from validated_is_dict [OF v] obtain d node rest
    where vd: "v = JObj d" and n: "map_of d ''nodes'' = Some (JList (node # rest))"
    by blast
  from u vd n obtain md where md: "map_of d ''metadata'' = Some md"
    by (cases "map_of d ''metadata''") (auto simp: update_metadata_def dict_get_def)
  from u vd n md obtain m where m: "md = JObj m"
    by (cases md) (auto simp: update_metadata_def dict_get_def)
  from u vd n md m obtain levels depth
    where l: "node_levels (node # rest) = Inr levels"
      and p: "py_max levels (JInt 0) = Inr depth"
      and out: "out = JObj (dict_set (dict_set d ''metadata'' (JObj (dict_set m ''total_nodes''
                  (JInt (int (length (node # rest))))))) ''metadata''
                  (JObj (dict_set (dict_set m ''total_nodes'' (JInt (int (length (node # rest)))))
                     ''max_depth'' depth)))"
    by (auto simp: update_metadata_def dict_get_def map_of_dict_set bind_r_Inr)
  show ?thesis
    unfolding metadata_recomputed_iff
    by (rule exI [of _ "node # rest"], rule exI [of _ levels])
       (simp add: out map_of_dict_set n l p)
qed

lemma fallback_structure_recomputed:
  assumes "create_detailed_fallback_structure parsed = Inr out"
  shows "metadata_recomputed out"
proof -
  from assms obtain p where p: "parsed = JObj p"
    by (cases parsed) auto
  from assms [unfolded p] obtain nodes edges levels depth
    where l: "node_levels nodes = Inr levels" and m: "py_max levels (JInt 0) = Inr depth"
      and out: "out = JObj
           [(''title'', dict_get p ''main_topic'' (JStr ''Mindmap'')),
            (''description'', dict_get p ''topic_description'' (JStr ''Comprehensive system analysis'')),
            (''layout_type'', JStr ''flowchart''),
            (''domain'', dict_get p ''domain'' (JStr ''general'')),
            (''complexity'', dict_get p ''complexity_level'' (JStr ''intermediate'')),
            (''workflow_type'', dict_get p ''workflow_type'' (JStr ''sequential'')),
            (''metadata'', JObj
               [(''total_nodes'', JInt (int (length nodes))),
                (''max_depth'', depth),
                (''creation_context'', JStr ''Enhanced intelligent structure'')]),
            (''nodes'', JList nodes),
            (''edges'', JList edges)]"
    by (auto simp: Let_def bind_r_Inr)
  show ?thesis
    unfolding metadata_recomputed_iff
    by (rule exI [of _ nodes], rule exI [of _ levels]) (simp add: out l m)
qed

lemma decode_error_clause_bound [simp]: "decode_error_clause i True = Retry True"
  by (simp add: decode_error_clause_def)

lemma structure_attempt_recomputed:
  "structure_attempt e i b = Returned layout \<Longrightarrow> metadata_recomputed layout"
  by (auto simp: structure_attempt_def update_metadata_recomputed decode_error_clause_def
      split: reply.splits option.splits sum.splits bool.splits if_splits)

lemma run_attempts_Some:
  "run_attempts f is b = Inr (Some v) \<Longrightarrow> \<exists>i \<in> set is. \<exists>b'. f i b' = Returned v"
  by (induction "is" arbitrary: b) (auto split: attempt_end.splits)


lemma num_of_eq0: "py_eq v (JInt 0) \<Longrightarrow> num_of v \<noteq> None"
  by (cases v) auto

lemma node_position_ok: "(\<exists>q. node_position i v = Inr q) \<longleftrightarrow> num_of v \<noteq> None"
  by (cases "num_of v") (auto simp: node_position_def dest: num_of_eq0)

lemma color_of_ok: "(\<exists>q. color_of v = Inr q) \<longleftrightarrow> (case v of JList _ \<Rightarrow> False | JObj _ \<Rightarrow> False | _ \<Rightarrow> True)"
  by (cases v) auto

lemma fallback_node_plain:
  assumes "plain_concept c"
  shows "\<exists>nd. fallback_node i c = Inr (JObj nd)
           \<and> set required_node_keys \<subseteq> dom (map_of nd)
           \<and> (\<exists>l. map_of nd ''level'' = Some l \<and> num_of l \<noteq> None)"
proof -
  from assms obtain d where c: "c = JObj d" and i: "map_of d ''id'' \<noteq> None"
    and t: "case map_of d ''title'' of Some (JStr _) \<Rightarrow> True | Some (JList _) \<Rightarrow> True | _ \<Rightarrow> False"
    and l: "num_of (dict_get d ''level'' (JInt 0)) \<noteq> None"
    and n: "case dict_get d ''node_type'' (JStr ''process'') of
                JList _ \<Rightarrow> False | JObj _ \<Rightarrow> False | _ \<Rightarrow> True"
    by (auto simp: plain_concept_def split: json.splits)
  from l obtain q where q: "node_position i (dict_get d ''level'' (JInt 0)) = Inr q"
    using node_position_ok by blast
  from i obtain cid where cid: "map_of d ''id'' = Some cid" by auto
  from t obtain tv ts where tv: "map_of d ''title'' = Some tv" and ts: "slice30 tv = Inr ts"
    by (auto split: option.splits json.splits)
  from n obtain col where col: "color_of (dict_get d ''node_type'' (JStr ''process'')) = Inr col"
    using color_of_ok by blast
  show ?thesis
    using q cid tv ts col l
    by (cases q) (simp add: c Let_def required_node_keys_def)
qed

lemma fallback_node_steps:
  assumes "fallback_node i (JObj d) = Inr n"
  shows "\<exists>q. node_position i (dict_get d ''level'' (JInt 0)) = Inr q"
    and "map_of d ''id'' \<noteq> None"
    and "\<exists>tv ts. map_of d ''title'' = Some tv \<and> slice30 tv = Inr ts"
    and "\<exists>col. color_of (dict_get d ''node_type'' (JStr ''process'')) = Inr col"
proof -
  from assms obtain q where q: "node_position i (dict_get d ''level'' (JInt 0)) = Inr q"
    by (cases "node_position i (dict_get d ''level'' (JInt 0))") (simp_all add: Let_def)
  then show "\<exists>q. node_position i (dict_get d ''level'' (JInt 0)) = Inr q" ..
  from assms q obtain cid where cid: "map_of d ''id'' = Some cid"
    by (cases q; cases "map_of d ''id''") (simp_all add: Let_def)
  then show "map_of d ''id'' \<noteq> None" by simp
  from assms q cid obtain tv where tv: "map_of d ''title'' = Some tv"
    by (cases q; cases "map_of d ''title''") (simp_all add: Let_def)
  from assms q cid tv obtain ts where ts: "slice30 tv = Inr ts"
    by (cases q; cases "slice30 tv") (simp_all add: Let_def)
  from tv ts show "\<exists>tv ts. map_of d ''title'' = Some tv \<and> slice30 tv = Inr ts" by blast
  from assms q cid tv ts
  show "\<exists>col. color_of (dict_get d ''node_type'' (JStr ''process'')) = Inr col"
    by (cases q; cases "color_of (dict_get d ''node_type'' (JStr ''process''))")
       (simp_all add: Let_def)
qed

lemma fallback_node_returns:
  assumes "fallback_node i c = Inr n"
  shows "plain_concept c"
proof -
  from assms obtain d where c: "c = JObj d" by (cases c) auto
  note s = fallback_node_steps [OF assms [unfolded c]]
  from s(1) have 1: "num_of (dict_get d ''level'' (JInt 0)) \<noteq> None"
    using node_position_ok [of i "dict_get d ''level'' (JInt 0)"] by blast
  from s(3) obtain tv ts where "map_of d ''title'' = Some tv" "slice30 tv = Inr ts"
    by blast
  then have 3: "case map_of d ''title'' of Some (JStr _) \<Rightarrow> True
      | Some (JList _) \<Rightarrow> True | _ \<Rightarrow> False"
    by (cases tv) simp_all
  from s(4) have 4: "case dict_get d ''node_type'' (JStr ''process'') of
      JList _ \<Rightarrow> False | JObj _ \<Rightarrow> False | _ \<Rightarrow> True"
    using color_of_ok [of "dict_get d ''node_type'' (JStr ''process'')"] by blast
  from 1 s(2) 3 4 show ?thesis
    by (simp add: c plain_concept_def)
qed

lemma fallback_edge_plain:
  "(\<exists>ed. fallback_edge i r = Inr ed) \<longleftrightarrow> plain_relationship r"
  by (cases r) (auto simp: fallback_edge_def plain_relationship_def bind_r_Inr split: option.splits)

lemma py_gt_nums:
  "num_of a = Some m \<Longrightarrow> num_of b = Some n \<Longrightarrow> py_gt a b = Inr (m > n)"
  by (cases a; cases b) auto

lemma max_from_nums:
  "num_of m \<noteq> None \<Longrightarrow> list_all (\<lambda>x. num_of x \<noteq> None) xs \<Longrightarrow> \<exists>r. max_from m xs = Inr r"
proof (induction xs arbitrary: m)
  case Nil
  then show ?case by simp
next
  case (Cons x xs)
  then obtain a b where "num_of m = Some a" "num_of x = Some b" by auto
  with Cons show ?case by (auto simp: py_gt_nums)
qed

lemma py_max_nums:
  "list_all (\<lambda>x. num_of x \<noteq> None) xs \<Longrightarrow> \<exists>r. py_max xs (JInt 0) = Inr r"
  by (cases xs) (auto simp: py_max_def max_from_nums)

lemma node_levels_nodes:
  "list_all node_like ns \<Longrightarrow>
     \<exists>ls. node_levels ns = Inr ls \<and> list_all (\<lambda>x. num_of x \<noteq> None) ls"
proof (induction ns)
  case Nil
  then show ?case by (simp add: node_levels_def)
next
  case (Cons n ns)
  then obtain ls where "node_levels ns = Inr ls" "list_all (\<lambda>x. num_of x \<noteq> None) ls"
    by auto
  moreover from Cons.prems obtain nd l where "n = JObj nd" "map_of nd ''level'' = Some l"
    "num_of l \<noteq> None"
    by (auto simp: node_like_def)
  ultimately show ?case
    by (auto simp: node_levels_def dict_get_def)
qed

lemma fallback_nodes_plain:
  "list_all plain_concept cs \<Longrightarrow>
     \<exists>ns. map_r (\<lambda>(i, concept). fallback_node i concept) (List.enumerate k cs) = Inr ns
          \<and> list_all node_like ns \<and> length ns = length cs"
proof (induction cs arbitrary: k)
  case Nil
  then show ?case by simp
next
  case (Cons c cs)
  from Cons.prems have "plain_concept c" by simp
  from fallback_node_plain [OF this, of k] obtain nd
    where "fallback_node k c = Inr (JObj nd)" "node_like (JObj nd)"
    by (auto simp: node_like_def)
  moreover from Cons obtain ns
    where "map_r (\<lambda>(i, concept). fallback_node i concept) (List.enumerate (Suc k) cs) = Inr ns"
      "list_all node_like ns" "length ns = length cs"
    by fastforce
  ultimately show ?case by simp
qed

lemma fallback_edges_plain:
  "list_all plain_relationship rs \<Longrightarrow>
     \<exists>es. map_r (\<lambda>(i, rel). fallback_edge i rel) (List.enumerate k rs) = Inr es"
proof (induction rs arbitrary: k)
  case Nil
  then show ?case by simp
next
  case (Cons r rs)
  from Cons.prems have "plain_relationship r" by simp
  then obtain ed where "fallback_edge k r = Inr ed"
    using fallback_edge_plain by blast
  moreover from Cons obtain es
    where "map_r (\<lambda>(i, rel). fallback_edge i rel) (List.enumerate (Suc k) rs) = Inr es"
    by fastforce
  ultimately show ?case by simp
qed

lemma fallback_structure_plain:
  assumes "plain_parsed v"
  shows "\<exists>layout. create_detailed_fallback_structure v = Inr (JObj layout)
           \<and> (\<forall>p. v = JObj p \<longrightarrow>
                 map_of layout ''title'' = Some (dict_get p ''main_topic'' (JStr ''Mindmap''))
                 \<and> map_of layout ''description''
                     = Some (dict_get p ''topic_description'' (JStr ''Comprehensive system analysis''))
                 \<and> (map_of p ''workflow_type'' = Some (JStr ''sequential'')
                      \<longrightarrow> (\<exists>ns. map_of layout ''nodes'' = Some (JList ns)
                            \<and> py_len (JList ns) = py_len (dict_get p ''concepts'' (JList [])))))"
proof -
  from assms obtain p rs where v: "v = JObj p"
    and cs: "builds_nodes p \<Longrightarrow> \<exists>cs. py_iter (dict_get p ''concepts'' (JList [])) = Inr cs
                \<and> list_all plain_concept cs"
    and rs: "py_iter (dict_get p ''relationships'' (JList [])) = Inr rs"
            "list_all plain_relationship rs"
    by (auto simp: plain_parsed_def split: json.splits sum.splits if_splits)
  define nodes_r where "nodes_r =
     (if py_eq (dict_get p ''workflow_type'' (JStr ''sequential'')) (JStr ''flowchart'')
         \<or> py_eq (dict_get p ''workflow_type'' (JStr ''sequential'')) (JStr ''sequential'')
      then bind_r (py_iter (dict_get p ''concepts'' (JList []))) (\<lambda>cs.
             map_r (\<lambda>(i, concept). fallback_node i concept) (List.enumerate 0 cs))
      else Inr [])"
  have "\<exists>ns. nodes_r = Inr ns \<and> list_all node_like ns
          \<and> (map_of p ''workflow_type'' = Some (JStr ''sequential'')
               \<longrightarrow> py_len (dict_get p ''concepts'' (JList [])) = Inr (length ns))"
  proof (cases "builds_nodes p")
    case True
    from cs [OF True] obtain cs
      where c: "py_iter (dict_get p ''concepts'' (JList [])) = Inr cs" "list_all plain_concept cs"
      by blast
    have len: "py_len (dict_get p ''concepts'' (JList [])) = Inr (length cs)"
      using c(1) by (cases "dict_get p ''concepts'' (JList [])") auto
    from fallback_nodes_plain [OF c(2), of 0] c(1) True len show ?thesis
      by (auto simp: nodes_r_def builds_nodes_def)
  next
    case False
    then show ?thesis
      by (auto simp: nodes_r_def builds_nodes_def dict_get_def)
  qed
  then obtain ns where ns: "nodes_r = Inr ns" "list_all node_like ns"
    "map_of p ''workflow_type'' = Some (JStr ''sequential'')
       \<longrightarrow> py_len (dict_get p ''concepts'' (JList [])) = Inr (length ns)"
    by blast
  from fallback_edges_plain [OF rs(2), of 0] obtain es
    where es: "map_r (\<lambda>(i, rel). fallback_edge i rel) (List.enumerate 0 rs) = Inr es"
    by blast
  from node_levels_nodes [OF ns(2)] obtain ls
    where ls: "node_levels ns = Inr ls" "list_all (\<lambda>x. num_of x \<noteq> None) ls"
    by blast
  from py_max_nums [OF ls(2)] obtain r where r: "py_max ls (JInt 0) = Inr r"
    by blast
  show ?thesis
    using ns(1) ns(3) by (simp add: v Let_def nodes_r_def rs(1) es ls(1) r)
qed

text \<open>The fallback of stage 2 returns on no other data.\<close>

lemma map_r_Inr:
  "map_r f xs = Inr ys \<Longrightarrow> \<forall>x \<in> set xs. \<exists>y. f x = Inr y"
  by (induction xs arbitrary: ys) (auto simp: bind_r_Inr)

lemma fallback_nodes_returned:
  assumes "map_r (\<lambda>(i, concept). fallback_node i concept) (List.enumerate k cs) = Inr ns"
  shows "list_all plain_concept cs"
proof -
  have "plain_concept c" if "c \<in> set cs" for c
  proof -
    from that obtain j where "j < length cs" "cs ! j = c"
      by (auto simp: in_set_conv_nth)
    then have "(k + j, c) \<in> set (List.enumerate k cs)"
      by (simp add: in_set_enumerate_eq)
    then obtain i where "(i, c) \<in> set (List.enumerate k cs)" ..
    with map_r_Inr [OF assms] obtain n where "fallback_node i c = Inr n"
      by fastforce
    then show ?thesis by (rule fallback_node_returns)
  qed
  then show ?thesis by (simp add: list_all_iff)
qed

lemma fallback_edges_returned:
  assumes "map_r (\<lambda>(i, rel). fallback_edge i rel) (List.enumerate k rs) = Inr es"
  shows "list_all plain_relationship rs"
proof -
  have "plain_relationship r" if "r \<in> set rs" for r
  proof -
    from that obtain j where "j < length rs" "rs ! j = r"
      by (auto simp: in_set_conv_nth)
    then have "(k + j, r) \<in> set (List.enumerate k rs)"
      by (simp add: in_set_enumerate_eq)
    then obtain i where "(i, r) \<in> set (List.enumerate k rs)" ..
    with map_r_Inr [OF assms] obtain ed where "fallback_edge i r = Inr ed"
      by fastforce
    then show ?thesis using fallback_edge_plain by blast
  qed
  then show ?thesis by (simp add: list_all_iff)
qed

lemma fallback_structure_returned:
  assumes "create_detailed_fallback_structure v = Inr layout"
  shows "plain_parsed v"
proof -
  from assms obtain p where p: "v = JObj p"
    by (cases v) auto
  define nodes_r where "nodes_r =
     (if py_eq (dict_get p ''workflow_type'' (JStr ''sequential'')) (JStr ''flowchart'')
         \<or> py_eq (dict_get p ''workflow_type'' (JStr ''sequential'')) (JStr ''sequential'')
      then bind_r (py_iter (dict_get p ''concepts'' (JList []))) (\<lambda>cs.
             map_r (\<lambda>(i, concept). fallback_node i concept) (List.enumerate 0 cs))
      else Inr [])"
  from assms obtain ns where ns: "nodes_r = Inr ns"
    by (cases nodes_r) (simp_all add: p Let_def nodes_r_def)
  from assms ns obtain rs where rs: "py_iter (dict_get p ''relationships'' (JList [])) = Inr rs"
    by (cases "py_iter (dict_get p ''relationships'' (JList []))")
       (simp_all add: p Let_def nodes_r_def)
  from assms ns rs obtain es
    where es: "map_r (\<lambda>(i, rel). fallback_edge i rel) (List.enumerate 0 rs) = Inr es"
    by (cases "map_r (\<lambda>(i, rel). fallback_edge i rel) (List.enumerate 0 rs)")
       (simp_all add: p Let_def nodes_r_def)
  have "\<exists>cs. py_iter (dict_get p ''concepts'' (JList [])) = Inr cs \<and> list_all plain_concept cs"
    if "builds_nodes p"
    using ns that
    by (auto simp: nodes_r_def builds_nodes_def bind_r_Inr dest: fallback_nodes_returned)
  with rs fallback_edges_returned [OF es] show ?thesis
    by (auto simp: p plain_parsed_def)
qed

lemma fallback_returns_iff:
  "(\<exists>layout. create_detailed_fallback_structure v = Inr layout) \<longleftrightarrow> plain_parsed v"
  using fallback_structure_plain [of v] fallback_structure_returned [of v] by blast






























lemma digit_char_inj: "a < 10 \<Longrightarrow> b < 10 \<Longrightarrow> digit_char a = digit_char b \<Longrightarrow> a = b"
  by (simp add: digit_char_def char_of_eq_iff take_bit_nat_eq_self)

lemma str_nat_snoc:
  "str_nat n = (if n < 10 then [] else str_nat (n div 10)) @ [digit_char (n mod 10)]"
  by (subst str_nat.simps) simp

lemma str_nat_not_Nil: "str_nat n \<noteq> []"
  by (subst str_nat_snoc) simp

lemma str_nat_inj: "str_nat m = str_nat n \<Longrightarrow> m = n"
proof (induction m arbitrary: n rule: str_nat.induct)
  case (1 m)
  from "1.prems" have e: "(if m < 10 then [] else str_nat (m div 10)) @ [digit_char (m mod 10)]
      = (if n < 10 then [] else str_nat (n div 10)) @ [digit_char (n mod 10)]"
    using str_nat_snoc [of m] str_nat_snoc [of n] by simp
  then have d: "m mod 10 = n mod 10"
    by (auto intro: digit_char_inj)
  from e have b: "(if m < 10 then [] else str_nat (m div 10))
      = (if n < 10 then [] else str_nat (n div 10))"
    by simp
  show ?case
  proof (cases "m < 10")
    case True
    with b have "n < 10"
      by (cases "n < 10") (use str_nat_not_Nil [of "n div 10"] in auto)
    with True d show ?thesis by simp
  next
    case False
    with b have n: "\<not> n < 10"
      by (cases "n < 10") (use str_nat_not_Nil [of "m div 10"] in auto)
    with False b have "str_nat (m div 10) = str_nat (n div 10)" by simp
    with False "1.IH" have "m div 10 = n div 10" by simp
    with d show ?thesis
      by (metis div_mult_mod_eq)
  qed
qed

lemma process_id_inj: "process_id m = process_id n \<longleftrightarrow> m = n"
  by (auto simp: process_id_def dest: str_nat_inj)

lemma process_id_not_root: "process_id n \<noteq> ''root''"
  by (simp add: process_id_def)

lemma map_enumerate_index:
  "map (\<lambda>(i, x). g i) (List.enumerate k xs) = map g [k..<k + length xs]"
proof -
  have *: "map (\<lambda>(i, x). g i) ys = map g (map fst ys)" for ys :: "(nat \<times> 'b) list"
    by (induction ys) auto
  show ?thesis unfolding * by simp
qed

lemma root_fields:
  "field ''id'' (root_concept d t) = Some (JStr ''root'')"
  "field ''parent'' (root_concept d t) = Some JNull"
  "field ''level'' (root_concept d t) = Some (JInt 0)"
  by (simp_all add: field_def root_concept_def)

lemma process_fields:
  "field ''id'' (process_concept d t f i pr) = Some (JStr (process_id (Suc i)))"
  "field ''parent'' (process_concept d t f i pr) = Some (JStr ''root'')"
  "field ''level'' (process_concept d t f i pr) = Some (JInt 1)"
  by (simp_all add: field_def process_concept_def)

lemma relationship_fields:
  "field ''from'' (process_relationship f i pr)
     = Some (JStr (if i = 0 then ''root'' else process_id i))"
  "field ''to'' (process_relationship f i pr) = Some (JStr (process_id (Suc i)))"
  by (simp_all add: field_def process_relationship_def)

lemma fallback_graph:
  obtains d t f where
    "concepts_of (create_intelligent_fallback prompt)
       = root_concept d t # map (\<lambda>(i, pr). process_concept d t f i pr) (List.enumerate 0 f)"
    "relationships_of (create_intelligent_fallback prompt)
       = map (\<lambda>(i, pr). process_relationship f i pr) (List.enumerate 0 f)"
  by (simp add: concepts_of_def relationships_of_def field_def create_intelligent_fallback_def
      Let_def)

lemma process_ids:
  "map (field ''id'') (map (\<lambda>(i, pr). process_concept d t f i pr) (List.enumerate 0 f))
     = map stage_id [0..<length f]"
proof -
  have "map (field ''id'') (map (\<lambda>(i, pr). process_concept d t f i pr) (List.enumerate 0 f))
      = map (\<lambda>(i, pr). stage_id i) (List.enumerate 0 f)"
    by (simp add: process_fields stage_id_def split_def)
  then show ?thesis by (simp add: map_enumerate_index)
qed

lemma relationship_pairs:
  "map (\<lambda>r. (field ''from'' r, field ''to'' r))
       (map (\<lambda>(i, pr). process_relationship f i pr) (List.enumerate 0 f))
     = zip (Some (JStr ''root'') # map stage_id [0..<length f]) (map stage_id [0..<length f])"
proof -
  have "map (\<lambda>r. (field ''from'' r, field ''to'' r))
       (map (\<lambda>(i, pr). process_relationship f i pr) (List.enumerate 0 f))
     = map (\<lambda>(i, pr). (Some (JStr (if i = 0 then ''root'' else process_id i)), stage_id i))
         (List.enumerate 0 f)"
    by (simp add: relationship_fields stage_id_def split_def)
  also have "\<dots> = map (\<lambda>i. (Some (JStr (if i = 0 then ''root'' else process_id i)), stage_id i))
         [0..<length f]"
    by (simp add: map_enumerate_index)
  also have "\<dots> = zip (Some (JStr ''root'') # map stage_id [0..<length f])
      (map stage_id [0..<length f])"
    by (rule nth_equalityI) (auto simp: nth_Cons' stage_id_def)
  finally show ?thesis .
qed

lemma stage_ids_distinct: "distinct (map stage_id [0..<n])"
  by (auto simp: distinct_map inj_on_def stage_id_def process_id_inj)


lemma space_not_comma: "is_space c \<Longrightarrow> c \<noteq> CHR '',''"
  by (auto simp: is_space_def)

lemma closer_not_comma: "is_closer c \<Longrightarrow> c \<noteq> CHR '',''"
  by (auto simp: is_closer_def)

lemma drop_commas_spaces:
  "drop_trailing_commas (takeWhile is_space cs @ r) = takeWhile is_space cs @ drop_trailing_commas r"
  by (induction cs) (auto dest: space_not_comma)

lemma re_sub_is_drop: "re_sub_commas t = drop_trailing_commas t"
proof (induction t rule: re_sub_commas.induct)
  case 1
  show ?case by simp
next
  case (2 c cs)
  show ?case
  proof (cases "c = CHR '','' \<and> closes cs")
    case False
    with 2 show ?thesis by auto
  next
    case True
    then obtain z r where z: "dropWhile is_space cs = z # r" "is_closer z"
      by (auto simp: closes_def split: list.splits)
    have "cs = takeWhile is_space cs @ z # r"
      using z(1) takeWhile_dropWhile_id [of is_space cs] by simp
    then have "drop_trailing_commas cs = takeWhile is_space cs @ drop_trailing_commas (z # r)"
      using drop_commas_spaces [of cs "z # r"] by simp
    also have "drop_trailing_commas (z # r) = z # drop_trailing_commas r"
      using closer_not_comma [OF z(2)] by simp
    finally show ?thesis
      using True 2 z by simp
  qed
qed

lemma rfind_idx_length: "rfind_idx sub ys = Some i \<Longrightarrow> length sub \<le> length ys"
  by (induction ys arbitrary: i) (auto split: option.splits if_splits dest: prefix_length_le)

lemma rfind_idx_self: "sub \<noteq> [] \<Longrightarrow> rfind_idx sub sub = Some 0"
proof (cases sub)
  case (Cons c cs)
  have "rfind_idx sub cs = None"
    using rfind_idx_length [of sub cs] Cons by (cases "rfind_idx sub cs") auto
  with Cons show ?thesis by simp
qed simp

lemma rfind_idx_append: "sub \<noteq> [] \<Longrightarrow> rfind_idx sub (xs @ sub) = Some (length xs)"
  by (induction xs) (simp_all add: rfind_idx_self)

lemma find_idx_append:
  "sub \<noteq> [] \<Longrightarrow> \<not> sublist sub (xs @ butlast sub) \<Longrightarrow> find_idx sub (xs @ sub) = Some (length xs)"
proof (induction xs)
  case Nil
  then show ?case by (cases sub) simp_all
next
  case (Cons c xs)
  from Cons.prems have n: "\<not> sublist sub (xs @ butlast sub)"
    by (auto simp: sublist_Cons_right)
  have "\<not> prefix sub (c # xs @ sub)"
  proof
    assume p: "prefix sub (c # xs @ sub)"
    have "c # xs @ sub = (c # xs @ butlast sub) @ [last sub]"
      using Cons.prems(1) by simp
    with p have "sub = (c # xs @ butlast sub) @ [last sub] \<or> prefix sub (c # xs @ butlast sub)"
      by (metis prefix_snoc)
    then show False
    proof
      assume "sub = (c # xs @ butlast sub) @ [last sub]"
      then have "length sub = length ((c # xs @ butlast sub) @ [last sub])" by simp
      with Cons.prems(1) show False by simp
    next
      assume "prefix sub (c # xs @ butlast sub)"
      then have "sublist sub ((c # xs) @ butlast sub)" by (auto intro: prefix_imp_sublist)
      with Cons.prems(2) show False by simp
    qed
  qed
  with Cons.IH [OF Cons.prems(1) n] show ?case by simp
qed

lemma fence_in_json_fence: "sublist json_fence s \<Longrightarrow> sublist fence s"
  by (auto simp: sublist_def json_fence_def)

lemma strip_code_block_plain: "\<not> sublist fence s \<Longrightarrow> strip_code_block s = s"
  by (auto simp: strip_code_block_def dest: fence_in_json_fence)

lemma strip_code_block_fenced:
  assumes "\<not> sublist json_fence (fence @ s @ fence)"
  shows "strip_code_block (fence @ s @ fence) = s"
proof -
  have f: "py_find (fence @ s @ fence) fence = 0"
    by (simp add: py_find_def fence_def)
  have "rfind_idx fence ((fence @ s) @ fence) = Some (length (fence @ s))"
    by (rule rfind_idx_append) (simp add: fence_def)
  then have r: "py_rfind (fence @ s @ fence) fence = int (length s) + 3"
    by (simp add: py_rfind_def fence_def)
  have "sublist fence (fence @ s @ fence)" by simp
  with assms f r show ?thesis
    by (simp add: strip_code_block_def py_slice_def slice_bound_def Let_def)
       (simp add: fence_def)
qed

lemma strip_code_block_json_fenced:
  assumes "\<not> sublist fence (s @ butlast fence)"
  shows "strip_code_block (json_fence @ s @ fence) = s"
proof -
  have f: "py_find (json_fence @ s @ fence) json_fence = 0"
    by (simp add: py_find_def json_fence_def fence_def)
  have "find_idx fence (s @ fence) = Some (length s)"
    using assms by (intro find_idx_append) (simp_all add: fence_def)
  then have e: "py_find_from (json_fence @ s @ fence) fence 7 = 7 + int (length s)"
    by (simp add: py_find_from_def json_fence_def fence_def)
  have "sublist json_fence (json_fence @ s @ fence)" by simp
  with f e show ?thesis
    by (simp add: strip_code_block_def py_slice_def slice_bound_def Let_def)
       (simp add: json_fence_def fence_def)
qed



















section \<open>What reaches the caller of the pipeline\<close>





text \<open>
  A run the theorem leaves out: the reply of stage 1 passes the validator, which looks
  at the first concept only, its second concept has no \<open>id\<close>, and every call of stage 2
  raises. The stage-2 fallback reads \<^verbatim>\<open>concept["id"]\<close> outside any \<^verbatim>\<open>try\<close> block and the
  KeyError reaches the caller.
\<close>

lemma missing_id_reaches_caller:
  "generate_mindmap no_id_env coffee_prompt = Inl KeyError"
  by code_simp
section \<open>The run in which every call raises\<close>



text \<open>
  The claim as stated fails at a prompt that carries tags: the document returned has
  two opening tags of a node and one of an edge.
\<close>

theorem tag_prompt_counterexample:
  "map_sum id (count_sub ''<node '') (generate_mindmap raising_env tag_prompt) = Inr 2
   \<and> map_sum id (count_sub ''<edge '') (generate_mindmap raising_env tag_prompt) = Inr 1"
  by code_simp

text \<open>
  The run the theorem leaves out: every call raises \<^verbatim>\<open>json.JSONDecodeError\<close>. On the
  third attempt of stage 1 the clause that catches it prints \<^verbatim>\<open>content[:300]\<close>;
  \<^verbatim>\<open>content\<close> was never assigned, and UnboundLocalError reaches the caller.
\<close>

lemma decode_errors_reach_caller:
  "generate_mindmap decode_error_env coffee_prompt = Inl UnboundLocalError"
  by code_simp
section \<open>The metadata of a stage-2 layout\<close>

text \<open>
  Claim C3. In every layout that stage 2 returns, from a validated reply or from its
  fallback, and in every output of the fallback generator itself,
  \<open>metadata.total_nodes\<close> is the length of the list of nodes and \<open>metadata.max_depth\<close>
  is what \<^verbatim>\<open>max\<close> gives for the levels of the nodes, a node without a level counting
  as level 0 and an empty list giving 0; for integer levels that is their greatest.
  Nothing of the metadata the model sent is kept in these two fields.
\<close>

theorem stage2_metadata_recomputed:
  assumes "structure_knowledge_detailed e parsed_data = Inr layout
           \<or> create_detailed_fallback_structure parsed_data = Inr layout"
  shows "metadata_recomputed layout
    \<and> (\<forall>nodes ls md. py_getitem layout ''nodes'' = Inr (JList nodes)
          \<and> node_levels nodes = Inr (map JInt ls) \<and> ls \<noteq> []
          \<and> py_getitem layout ''metadata'' = Inr md
          \<longrightarrow> py_getitem md ''max_depth'' = Inr (JInt (Max (set ls))))"
proof -
  have r: "metadata_recomputed layout"
    using assms
  proof
    assume s: "structure_knowledge_detailed e parsed_data = Inr layout"
    then obtain found
      where f: "run_attempts (structure_attempt e) [0..<max_retries] False = Inr found"
        and c: "(case found of Some structured_data \<Rightarrow> Inr structured_data
                 | None \<Rightarrow> create_detailed_fallback_structure parsed_data) = Inr layout"
      by (auto simp: structure_knowledge_detailed_def bind_r_Inr)
    show ?thesis
    proof (cases found)
      case None
      with c have "create_detailed_fallback_structure parsed_data = Inr layout"
        by simp
      then show ?thesis by (rule fallback_structure_recomputed)
    next
      case (Some v)
      with c have "v = layout" by simp
      with Some f run_attempts_Some [of "structure_attempt e" "[0..<max_retries]" False layout]
      show ?thesis by (auto dest: structure_attempt_recomputed)
    qed
  next
    assume "create_detailed_fallback_structure parsed_data = Inr layout"
    then show ?thesis by (rule fallback_structure_recomputed)
  qed
  then show ?thesis
    by (auto simp: metadata_recomputed_iff py_max_ints)
qed

text \<open>
  A reply of two nodes at levels 0 and 2 whose metadata say 99 nodes and depth 7: the
  layout stage 2 returns says 2 and 2.
\<close>

lemma wrong_layout_run:
  "structure_knowledge_detailed wrong_layout_env (JObj (sample_parsed [sample_concept]))
     = Inr (JObj corrected_layout)"
  by code_simp

theorem stage2_metadata_recomputed_witness:
  "structure_knowledge_detailed wrong_layout_env (JObj (sample_parsed [sample_concept]))
     = Inr (JObj corrected_layout)
   \<and> py_getitem (JObj wrong_layout) ''metadata''
       = Inr (JObj [(''total_nodes'', JInt 99), (''max_depth'', JInt 7)])
   \<and> metadata_recomputed (JObj corrected_layout)
   \<and> py_getitem (JObj corrected_layout) ''metadata''
       = Inr (JObj [(''total_nodes'', JInt 2), (''max_depth'', JInt 2)])"
  using stage2_metadata_recomputed [of wrong_layout_env "JObj (sample_parsed [sample_concept])"
      "JObj corrected_layout"] wrong_layout_run
  by (simp add: wrong_layout_def corrected_layout_def)
section \<open>The fallback generators and their validators\<close>




section \<open>The stage-1 validator\<close>

text \<open>
  Claim C5, as the code has it. On a dictionary the stage-1 validator returns false when
  one of the keys \<open>main_topic\<close>, \<open>topic_description\<close>, \<open>mindmap_type\<close>, \<open>concepts\<close>,
  \<open>relationships\<close> is missing or when the value of \<open>concepts\<close> is not a non-empty list.
  Otherwise the answer rests on the first concept alone, whatever other keys there are:
  for a dictionary it is whether all of \<open>id\<close>, \<open>title\<close>, \<open>description\<close>, \<open>level\<close>,
  \<open>what\<close>, \<open>why\<close>, \<open>how\<close>, \<open>examples\<close>, \<open>metrics\<close> are keys of it; a list is asked
  for these names as elements and a string for them as substrings; on a number, a
  boolean or null the validator raises TypeError and returns nothing.
\<close>

theorem validate_parsed_dict:
  "validate_detailed_parsed_data (JObj d) =
     (if \<not> set required_keys \<subseteq> dom (map_of d) then Inr False
      else case map_of d ''concepts'' of
             Some (JList (c # rest)) \<Rightarrow> first_concept_ok c
           | _ \<Rightarrow> Inr False)"
proof (cases "set required_keys \<subseteq> dom (map_of d)")
  case False
  then show ?thesis by (simp add: validate_detailed_parsed_data_def all_in_dict)
next
  case True
  then obtain cs where cs: "map_of d ''concepts'' = Some cs"
    by (auto simp: required_keys_def)
  with True show ?thesis
    by (simp add: validate_detailed_parsed_data_def all_in_dict all_in_first bind_r_bool_id
        split: json.splits list.splits)
qed

text \<open>The theorem at three dictionaries: an accepted one, one with no concept, one with a key missing.\<close>

theorem validate_parsed_dict_witness:
  "validate_detailed_parsed_data (JObj (sample_parsed [sample_concept])) = Inr True
   \<and> validate_detailed_parsed_data (JObj (sample_parsed [])) = Inr False
   \<and> validate_detailed_parsed_data (JObj (tl (sample_parsed [sample_concept]))) = Inr False"
  using validate_parsed_dict [of "sample_parsed [sample_concept]"]
    validate_parsed_dict [of "sample_parsed []"]
    validate_parsed_dict [of "tl (sample_parsed [sample_concept])"]
  by (simp add: sample_parsed_def sample_concept_def first_concept_ok_def required_keys_def
      required_concept_keys_def)

text \<open>
  The claim as stated fails where the first concept is a number: it has none of the
  keys, and the validator raises instead of returning false.
\<close>

theorem validate_parsed_counterexample:
  "validate_detailed_parsed_data (JObj (sample_parsed [JInt 5])) = Inl TypeError"
  by (simp add: validate_detailed_parsed_data_def sample_parsed_def required_keys_def
      required_concept_keys_def)
section \<open>The domain the stage-1 fallback names\<close>

text \<open>
  Claim C6, as the code has it. The domain of the stage-1 fallback is \<open>machine_learning\<close>
  for every prompt whose lowercase form contains \<open>machine learning\<close>; it is
  \<open>software_architecture\<close> for every prompt whose lowercase form contains
  \<open>architecture\<close> and none of the six machine-learning keywords, which are tested
  first; it is \<open>general\<close> for every prompt whose lowercase form contains none of the
  keywords of the four sets.
\<close>

theorem fallback_domain_classes:
  "(sublist ''machine learning'' (py_lower p) \<longrightarrow> domain_of p = Inr (JStr ''machine_learning''))
   \<and> (sublist ''architecture'' (py_lower p) \<and> \<not> any_in ml_words (py_lower p)
        \<longrightarrow> domain_of p = Inr (JStr ''software_architecture''))
   \<and> (\<not> any_in all_words (py_lower p) \<longrightarrow> domain_of p = Inr (JStr ''general''))"
  by (auto simp: domain_of_eq fallback_domain_def all_words_def any_in_append)
     (auto simp: any_in_def ml_words_def architecture_words_def)

text \<open>The three cases of the theorem, each at a prompt of its own.\<close>

theorem fallback_domain_classes_witness:
  "domain_of ''Deep Machine Learning'' = Inr (JStr ''machine_learning'')
   \<and> domain_of ''Microservice Architecture'' = Inr (JStr ''software_architecture'')
   \<and> domain_of ''Grow tomatoes'' = Inr (JStr ''general'')"
proof -
  have 1: "sublist ''machine learning'' (py_lower ''Deep Machine Learning'')" by code_simp
  have 2: "sublist ''architecture'' (py_lower ''Microservice Architecture'')
      \<and> \<not> any_in ml_words (py_lower ''Microservice Architecture'')" by code_simp
  have 3: "\<not> any_in all_words (py_lower ''Grow tomatoes'')" by code_simp
  show ?thesis
    using 1 2 3 fallback_domain_classes [of "''Deep Machine Learning''"]
      fallback_domain_classes [of "''Microservice Architecture''"]
      fallback_domain_classes [of "''Grow tomatoes''"]
    by blast
qed

text \<open>
  The claim as stated fails at a prompt that contains \<open>architecture\<close> and also a
  machine-learning keyword: \<open>ai\<close> is a substring of \<open>explain\<close>.
\<close>

theorem architecture_counterexample:
  "sublist ''architecture'' (py_lower ''Explain the architecture'')
   \<and> domain_of ''Explain the architecture'' = Inr (JStr ''machine_learning'')"
  by code_simp

section \<open>The sanitizer\<close>

text \<open>
  Claim C7, as the code has it. For every string \<open>s\<close> that contains no run of three
  backticks, the sanitizer gives for \<open>s\<close> between two such runs what it gives for \<open>s\<close>
  itself, provided the opening run is not followed by the word \<open>json\<close> (then the
  opening is a \<open>json\<close> fence and the word is dropped with it). For every \<open>s\<close> that
  neither contains such a run nor ends in a backtick, it gives the same for \<open>s\<close>
  between a \<open>json\<close> fence and a closing run. And for every input the commas it drops
  from the text it extracted are the trailing ones: those that white space and then a
  closing brace or bracket follow; a comma before a dropped comma stays.
\<close>

theorem sanitizer_fences_and_commas:
  "(\<not> sublist fence s \<and> \<not> sublist json_fence (fence @ s @ fence)
      \<longrightarrow> clean_json_response (fence @ s @ fence) = clean_json_response s)
   \<and> (\<not> sublist fence (s @ butlast fence)
      \<longrightarrow> clean_json_response (json_fence @ s @ fence) = clean_json_response s)
   \<and> clean_json_response t
       = py_strip (drop_trailing_commas (spaced (json_object_part (strip_code_block t))))"
proof -
  have "\<not> sublist fence s" if "\<not> sublist fence (s @ butlast fence)"
    using that unfolding sublist_def by (metis append.assoc)
  then show ?thesis
    by (auto simp: clean_json_response_def re_sub_is_drop spaced_def strip_code_block_plain
        strip_code_block_fenced strip_code_block_json_fenced)
qed

text \<open>The theorem at a text with three trailing commas.\<close>

theorem sanitizer_fences_and_commas_witness:
  "clean_json_response (fence @ trailing_commas_text @ fence)
     = clean_json_response trailing_commas_text
   \<and> clean_json_response (json_fence @ trailing_commas_text @ fence)
     = clean_json_response trailing_commas_text
   \<and> clean_json_response trailing_commas_text
     = cleaned_commas_text"
proof -
  have "\<not> sublist fence trailing_commas_text
      \<and> \<not> sublist json_fence (fence @ trailing_commas_text @ fence)
      \<and> \<not> sublist fence (trailing_commas_text @ butlast fence)"
    by code_simp
  moreover have "py_strip (drop_trailing_commas (spaced (json_object_part
      (strip_code_block trailing_commas_text))))
     = cleaned_commas_text"
    by code_simp
  ultimately show ?thesis
    using sanitizer_fences_and_commas [of trailing_commas_text trailing_commas_text]
    by simp
qed

text \<open>
  The claim as stated fails at a fenced text that starts with the word \<open>json\<close>: the
  sanitizer takes the fence for a \<open>json\<close> fence and drops the word, so its output is
  neither the text nor what it gives for the text.
\<close>

theorem fenced_json_word_counterexample:
  "clean_json_response (fence @ ''jsonabc'' @ fence) = ''abc''
   \<and> clean_json_response ''jsonabc'' = ''jsonabc''"
  by code_simp

text \<open>Of two commas before a closing brace the pattern matches the second only.\<close>

lemma comma_run_keeps_one: "clean_json_response ''{1,,}'' = ''{1,}''"
  by code_simp
section \<open>The graph of the stage-1 fallback\<close>

text \<open>
  Claim C8. For every prompt the concepts and relationships of the stage-1 fallback
  satisfy the invariant of the graph: every concept has an id and the ids are
  distinct; exactly one concept has parent null and level 0; every other concept names
  as its parent the id of a concept of the graph whose level is one less than its own;
  the ends of every relationship are ids of concepts; and the relationships go, in
  order, from each concept of the list to the next one, from the root through the
  stages.
\<close>

theorem fallback_graph_invariant: "graph_invariant (create_intelligent_fallback prompt)"
proof -
  obtain d t f where g:
    "concepts_of (create_intelligent_fallback prompt)
       = root_concept d t # map (\<lambda>(i, pr). process_concept d t f i pr) (List.enumerate 0 f)"
    "relationships_of (create_intelligent_fallback prompt)
       = map (\<lambda>(i, pr). process_relationship f i pr) (List.enumerate 0 f)"
    by (rule fallback_graph)
  let ?cs = "concepts_of (create_intelligent_fallback prompt)"
  let ?rs = "relationships_of (create_intelligent_fallback prompt)"
  have ids: "map (field ''id'') ?cs = Some (JStr ''root'') # map stage_id [0..<length f]"
    by (simp add: g root_fields process_ids del: map_map)
  have 1: "None \<notin> set (map (field ''id'') ?cs)"
    unfolding ids by (auto simp: stage_id_def)
  have 2: "distinct (map (field ''id'') ?cs)"
    unfolding ids using stage_ids_distinct [of "length f"]
    by (auto simp: stage_id_def process_id_not_root process_id_not_root [symmetric])
  have 3: "length (filter is_root ?cs) = 1"
    by (simp add: g is_root_def root_fields process_fields filter_map comp_def split_def)
  have 4: "list_all (\<lambda>c. is_root c \<or> child_of ?cs c) ?cs"
    by (simp add: g is_root_def child_of_def root_fields process_fields list_all_iff split_def)
  have 6: "map (\<lambda>r. (field ''from'' r, field ''to'' r)) ?rs
      = zip (map (field ''id'') ?cs) (tl (map (field ''id'') ?cs))"
    unfolding ids by (simp add: g(2) relationship_pairs del: map_map)
  have 5: "list_all (\<lambda>r. field ''from'' r \<in> set (map (field ''id'') ?cs)
      \<and> field ''to'' r \<in> set (map (field ''id'') ?cs)) ?rs"
  proof -
    have "(field ''from'' r, field ''to'' r)
        \<in> set (zip (map (field ''id'') ?cs) (tl (map (field ''id'') ?cs)))"
      if "r \<in> set ?rs" for r
      using that 6 [symmetric] by (metis (no_types, lifting) image_eqI list.set_map)
    then have "field ''from'' r \<in> set (map (field ''id'') ?cs)
        \<and> field ''to'' r \<in> set (tl (map (field ''id'') ?cs))"
      if "r \<in> set ?rs" for r
      using that by (blast dest: set_zip_leftD set_zip_rightD)
    moreover have "set (tl (map (field ''id'') ?cs)) \<subseteq> set (map (field ''id'') ?cs)"
      unfolding ids by auto
    ultimately show ?thesis
      unfolding list_all_iff by blast
  qed
  from 1 2 3 4 5 6 show ?thesis
    by (simp add: graph_invariant_def Let_def)
qed

text \<open>The graph of the prompt about the coffee shop: the root and six stages.\<close>

theorem fallback_graph_invariant_witness:
  "graph_invariant (create_intelligent_fallback coffee_prompt)
   \<and> map (field ''id'') (concepts_of (create_intelligent_fallback coffee_prompt))
       = map (\<lambda>i. Some (JStr i))
           [''root'', ''process_1'', ''process_2'', ''process_3'', ''process_4'', ''process_5'',
            ''process_6'']"
proof -
  have "map (field ''id'') (concepts_of (create_intelligent_fallback coffee_prompt))
       = map (\<lambda>i. Some (JStr i))
           [''root'', ''process_1'', ''process_2'', ''process_3'', ''process_4'', ''process_5'',
            ''process_6'']"
    by code_simp
  with fallback_graph_invariant [of coffee_prompt] show ?thesis by simp
qed
section \<open>Stage 4 when its call raises\<close>

text \<open>
  Claim C9. When the call of stage 4 raises, stage 4 returns the text it was given,
  unchanged, and what \<^verbatim>\<open>generate_mindmap\<close> returns is the result of stage 3 (or the
  exception of an earlier stage).
\<close>

theorem stage4_pass_through:
  "raises (validate_reply e) \<Longrightarrow>
     validate_xml e xml_content = xml_content
     \<and> generate_mindmap e prompt =
         bind_r (parse_concepts_detailed e prompt) (\<lambda>parsed_data.
         bind_r (structure_knowledge_detailed e parsed_data) (\<lambda>structured_data.
           generate_detailed_xml e structured_data prompt))"
proof -
  assume r: "raises (validate_reply e)"
  then have v: "validate_xml e x = x" for x
    by (cases "validate_reply e") (simp_all add: validate_xml_def raises_def)
  have "bind_r r (\<lambda>x. Inr x) = r" for r :: "string result"
    by (cases r) simp_all
  with v show ?thesis
    by (simp add: generate_mindmap_def)
qed

text \<open>The theorem in a run where every call raises.\<close>

theorem stage4_pass_through_witness:
  "validate_xml raising_env ''<mindmap/>'' = ''<mindmap/>''
   \<and> generate_mindmap raising_env ''Coffee'' =
         bind_r (parse_concepts_detailed raising_env ''Coffee'') (\<lambda>parsed_data.
         bind_r (structure_knowledge_detailed raising_env parsed_data) (\<lambda>structured_data.
           generate_detailed_xml raising_env structured_data ''Coffee''))"
proof -
  have "raises (validate_reply raising_env)" by (simp add: raising_env_def raises_def)
  from stage4_pass_through [OF this] show ?thesis by blast
qed
section \<open>A validated layout that has no metadata\<close>

text \<open>
  Claim C10. The stage-2 validator does not ask for the key \<open>metadata\<close>, and the
  assignments after it write into \<^verbatim>\<open>structured_data["metadata"]\<close>. So for every value
  that passes the validator and has no such key the first assignment raises KeyError,
  and an attempt whose reply parses to that value returns nothing: the clause
  \<^verbatim>\<open>except Exception\<close> of the loop takes the exception, the attempt counts as failed and
  the loop goes on.
\<close>

theorem validated_layout_without_metadata:
  assumes "validate_detailed_structured_data v = Inr True"
    and "py_in ''metadata'' v = Inr False"
  shows "update_metadata v = Inl KeyError
    \<and> (\<forall>e i bound t. structure_reply e i = Text t
          \<and> json_loads e (clean_json_response (py_strip t)) = Some v
          \<longrightarrow> structure_attempt e i bound = Retry True)"
proof -
  from validated_is_dict [OF assms(1)] obtain d node rest
    where v: "v = JObj d" and n: "map_of d ''nodes'' = Some (JList (node # rest))"
    by blast
  from assms(2) v have "map_of d ''metadata'' = None" by simp
  with v n have u: "update_metadata v = Inl KeyError"
    by (simp add: update_metadata_def dict_get_def)
  with assms(1) show ?thesis
    by (auto simp: structure_attempt_def)
qed

text \<open>
  Such a reply exists: a layout of one node without metadata, sent inside a fenced
  block.
\<close>

lemma clean_fenced_bare: "clean_json_response (py_strip (fenced bare_layout_text)) = bare_layout_text"
  by code_simp

theorem validated_layout_without_metadata_witness:
  "validate_detailed_structured_data (JObj bare_layout) = Inr True
   \<and> update_metadata (JObj bare_layout) = Inl KeyError
   \<and> structure_attempt bare_layout_env 0 False = Retry True"
proof -
  have v: "validate_detailed_structured_data (JObj bare_layout) = Inr True"
    by (simp add: validate_detailed_structured_data_def bare_layout_def sample_node_def
        required_layout_keys_def required_node_keys_def)
  have m: "py_in ''metadata'' (JObj bare_layout) = Inr False"
    by (simp add: bare_layout_def)
  have r: "structure_reply bare_layout_env 0 = Text (fenced bare_layout_text)
    \<and> json_loads bare_layout_env (clean_json_response (py_strip (fenced bare_layout_text)))
        = Some (JObj bare_layout)"
    by (simp add: bare_layout_env_def clean_fenced_bare)
  from validated_layout_without_metadata [OF v m] v r show ?thesis by blast
qed

end
